theory Spec2Isabelle
  imports Complex_Main
begin

section \<open>Numbers and small geometric values\<close>

text \<open>
  A JavaScript \<^verbatim>\<open>number\<close> is modelled as a \<^typ>\<open>real\<close>: every statement below is
  about the arithmetic the code writes down, not about IEEE rounding, infinities or NaN.
  \<^verbatim>\<open>Math.min\<close> and \<^verbatim>\<open>Math.max\<close> are \<^const>\<open>min\<close> and \<^const>\<open>max\<close> on reals.

  Isabelle record fields are global constants, so the short field names of the source
  (\<^verbatim>\<open>x\<close>, \<^verbatim>\<open>value\<close>, \<^verbatim>\<open>top\<close>, ...) carry a prefix naming their structure.
\<close>

record Vector2 =
  v2_x :: real
  v2_y :: real

record Vector3 =
  v3_x :: real
  v3_y :: real
  v3_z :: real

record Vector4 =
  v4_x :: real
  v4_y :: real
  v4_z :: real
  v4_w :: real

text \<open>The four members of a \<^verbatim>\<open>DOMRect\<close> that the code reads.\<close>

record DOMRect =
  rect_left :: real
  rect_top :: real
  rect_width :: real
  rect_height :: real

subsection \<open>utils/math.ts\<close>

definition lerp :: "real \<Rightarrow> real \<Rightarrow> real \<Rightarrow> real" where
  "lerp a b t = a + (b - a) * t"

definition lerpSpeed :: "real \<Rightarrow> real \<Rightarrow> real" where
  "lerpSpeed base deltaTime =
     (let n = base * deltaTime * 60 in if n > 1 then 1 else if n < 0 then 0 else n)"

definition clamp :: "real \<Rightarrow> real \<Rightarrow> real \<Rightarrow> real" where
  "clamp v lo hi = min (max v lo) hi"

definition screenToNDC :: "real \<Rightarrow> real \<Rightarrow> DOMRect \<Rightarrow> Vector2" where
  "screenToNDC screenX screenY bounds =
     (let nx = (if rect_width bounds > 0 then (screenX - rect_left bounds) / rect_width bounds
                else 0.5);
          ny = (if rect_height bounds > 0 then (screenY - rect_top bounds) / rect_height bounds
                else 0.5);
          x = 2 * (nx - 0.5);
          y = 2 * - (ny - 0.5)
      in \<lparr>v2_x = x, v2_y = y\<rparr>)"

definition calculateMovementDelta ::
  "real \<Rightarrow> real \<Rightarrow> real \<Rightarrow> real \<Rightarrow> DOMRect \<Rightarrow> Vector2" where
  "calculateMovementDelta currentX currentY lastX lastY bounds =
     (let nx = (if rect_width bounds > 0 then (currentX - rect_left bounds) / rect_width bounds
                else 0.5);
          ny = (if rect_height bounds > 0 then (currentY - rect_top bounds) / rect_height bounds
                else 0.5);
          ndx = nx - lastX;
          ndy = ny - lastY
      in \<lparr>v2_x = ndx, v2_y = ndy\<rparr>)"

text \<open>\<^verbatim>\<open>THREE.Vector3.lerp(v, alpha)\<close>: each component moves towards \<open>v\<close> by \<open>alpha\<close>.\<close>

definition Vector3_lerp :: "Vector3 \<Rightarrow> Vector3 \<Rightarrow> real \<Rightarrow> Vector3" where
  "Vector3_lerp p v alpha =
     \<lparr>v3_x = v3_x p + (v3_x v - v3_x p) * alpha,
      v3_y = v3_y p + (v3_y v - v3_y p) * alpha,
      v3_z = v3_z p + (v3_z v - v3_z p) * alpha\<rparr>"

section \<open>Effect parameters (config/constants.ts, types)\<close>

record EffectParameters =
  effectIntensity :: real
  contrastPower :: real
  colorSaturation :: real
  heatSensitivity :: real
  videoBlendAmount :: real
  gradientShift :: real
  heatDecay :: real
  interactionRadius :: real
  reactivity :: real

text \<open>\<^verbatim>\<open>keyof EffectParameters\<close>: the nine parameter names.\<close>

datatype ParamName =
  EffectIntensity | ContrastPower | ColorSaturation | HeatSensitivity | VideoBlendAmount
  | GradientShift | HeatDecay | InteractionRadius | Reactivity

text \<open>\<^verbatim>\<open>parameters[name]\<close> as a read and as an assignment.\<close>

fun param_get :: "EffectParameters \<Rightarrow> ParamName \<Rightarrow> real" where
  "param_get p EffectIntensity = effectIntensity p"
| "param_get p ContrastPower = contrastPower p"
| "param_get p ColorSaturation = colorSaturation p"
| "param_get p HeatSensitivity = heatSensitivity p"
| "param_get p VideoBlendAmount = videoBlendAmount p"
| "param_get p GradientShift = gradientShift p"
| "param_get p HeatDecay = heatDecay p"
| "param_get p InteractionRadius = interactionRadius p"
| "param_get p Reactivity = reactivity p"

fun param_set :: "EffectParameters \<Rightarrow> ParamName \<Rightarrow> real \<Rightarrow> EffectParameters" where
  "param_set p EffectIntensity v = p\<lparr>effectIntensity := v\<rparr>"
| "param_set p ContrastPower v = p\<lparr>contrastPower := v\<rparr>"
| "param_set p ColorSaturation v = p\<lparr>colorSaturation := v\<rparr>"
| "param_set p HeatSensitivity v = p\<lparr>heatSensitivity := v\<rparr>"
| "param_set p VideoBlendAmount v = p\<lparr>videoBlendAmount := v\<rparr>"
| "param_set p GradientShift v = p\<lparr>gradientShift := v\<rparr>"
| "param_set p HeatDecay v = p\<lparr>heatDecay := v\<rparr>"
| "param_set p InteractionRadius v = p\<lparr>interactionRadius := v\<rparr>"
| "param_set p Reactivity v = p\<lparr>reactivity := v\<rparr>"

definition DEFAULT_PARAMETERS :: EffectParameters where
  "DEFAULT_PARAMETERS =
     \<lparr>effectIntensity = 1.0, contrastPower = 0.8, colorSaturation = 1.3,
      heatSensitivity = 0.5, videoBlendAmount = 1.0, gradientShift = 0.0,
      heatDecay = 0.95, interactionRadius = 1.0, reactivity = 1.0\<rparr>"

record ParameterRange =
  range_min :: real
  range_max :: real
  range_step :: real

text \<open>
  \<^verbatim>\<open>PARAMETER_RANGES[name]\<close>. The table has an entry for each of the nine names; the
  lookup stays optional because \<open>setParameter\<close> tests it (\<^verbatim>\<open>if (range)\<close>).
\<close>

fun PARAMETER_RANGES :: "ParamName \<Rightarrow> ParameterRange option" where
  "PARAMETER_RANGES EffectIntensity = Some \<lparr>range_min = 0, range_max = 2, range_step = 0.1\<rparr>"
| "PARAMETER_RANGES ContrastPower = Some \<lparr>range_min = 0.1, range_max = 2, range_step = 0.1\<rparr>"
| "PARAMETER_RANGES ColorSaturation = Some \<lparr>range_min = 0.5, range_max = 3, range_step = 0.1\<rparr>"
| "PARAMETER_RANGES HeatSensitivity = Some \<lparr>range_min = 0.1, range_max = 2, range_step = 0.1\<rparr>"
| "PARAMETER_RANGES VideoBlendAmount = Some \<lparr>range_min = 0, range_max = 1, range_step = 0.1\<rparr>"
| "PARAMETER_RANGES GradientShift = Some \<lparr>range_min = -0.5, range_max = 0.5, range_step = 0.05\<rparr>"
| "PARAMETER_RANGES HeatDecay = Some \<lparr>range_min = 0.8, range_max = 0.99, range_step = 0.01\<rparr>"
| "PARAMETER_RANGES InteractionRadius = Some \<lparr>range_min = 0.1, range_max = 3, range_step = 0.1\<rparr>"
| "PARAMETER_RANGES Reactivity = Some \<lparr>range_min = 0.1, range_max = 3, range_step = 0.1\<rparr>"

subsection \<open>The constants of \<^verbatim>\<open>ANIMATION\<close>, \<^verbatim>\<open>INTERACTION\<close>, \<^verbatim>\<open>VIDEO_CONFIG\<close> and \<^verbatim>\<open>DRAW_RENDERER\<close>\<close>

definition FADE_IN_SPEED :: real where "FADE_IN_SPEED = 0.1"
definition MOUSE_INTERPOLATION_SPEED :: real where "MOUSE_INTERPOLATION_SPEED = 0.8"
definition SCROLL_INTERPOLATION_SPEED :: real where "SCROLL_INTERPOLATION_SPEED = 0.2"
definition MOVEMENT_INTERPOLATION_SPEED :: real where "MOVEMENT_INTERPOLATION_SPEED = 0.01"
definition POWER_INTERPOLATION_SPEED :: real where "POWER_INTERPOLATION_SPEED = 0.01"
definition VIDEO_BLEND_SPEED :: real where "VIDEO_BLEND_SPEED = 0.1"
definition HEAT_MAX_VALUE :: real where "HEAT_MAX_VALUE = 1.3"
definition TARGET_FPS :: real where "TARGET_FPS = 60"
definition POWER_MIN :: real where "POWER_MIN = 0.8"
definition POWER_MAX :: real where "POWER_MAX = 1.0"
definition HOLD_MOVE_TARGET :: real where "HOLD_MOVE_TARGET = 0.95"
definition RELEASE_MOVE_TARGET :: real where "RELEASE_MOVE_TARGET = 1.0"
definition HOLD_POWER_TARGET :: real where "HOLD_POWER_TARGET = 1.0"
definition RELEASE_POWER_TARGET :: real where "RELEASE_POWER_TARGET = 0.8"
definition HEAT_CLEANUP_THRESHOLD :: real where "HEAT_CLEANUP_THRESHOLD = 0.001"
definition LOOP_START_TIME :: real where "LOOP_START_TIME = 2.95"
definition LOOP_END_TIME :: real where "LOOP_END_TIME = 11.95"
definition RADIUS_RATIO :: real where "RADIUS_RATIO = 1000"
definition MOBILE_RADIUS :: real where "MOBILE_RADIUS = 350"
definition DESKTOP_RADIUS :: real where "DESKTOP_RADIUS = 220"
definition SIZE_DAMPING :: real where "SIZE_DAMPING = 0.8"
definition FADE_DAMPING :: real where "FADE_DAMPING = 0.98"
definition DIRECTION_MULTIPLIER :: real where "DIRECTION_MULTIPLIER = 100"

lemmas constants_defs =
  FADE_IN_SPEED_def MOUSE_INTERPOLATION_SPEED_def SCROLL_INTERPOLATION_SPEED_def
  MOVEMENT_INTERPOLATION_SPEED_def POWER_INTERPOLATION_SPEED_def VIDEO_BLEND_SPEED_def
  HEAT_MAX_VALUE_def TARGET_FPS_def POWER_MIN_def POWER_MAX_def HOLD_MOVE_TARGET_def
  RELEASE_MOVE_TARGET_def HOLD_POWER_TARGET_def RELEASE_POWER_TARGET_def
  HEAT_CLEANUP_THRESHOLD_def LOOP_START_TIME_def LOOP_END_TIME_def RADIUS_RATIO_def
  MOBILE_RADIUS_def DESKTOP_RADIUS_def SIZE_DAMPING_def FADE_DAMPING_def
  DIRECTION_MULTIPLIER_def

section \<open>ParameterController (components/ParameterController.ts)\<close>

text \<open>
  The controller owns the parameter object and a \<^verbatim>\<open>Map\<close> from parameter name to its HUD
  control. A control is modelled by the value its slider shows; the map is an association
  list in insertion order, because \<open>resetToDefaults\<close> iterates it. The two callbacks the
  controller was built with belong to its owner: the model records each invocation of
  \<^verbatim>\<open>onParameterChange\<close>, in order, in \<open>onParameterChange_calls\<close>.
\<close>

record ParameterController =
  pc_parameters :: EffectParameters
  parameterControls :: "(ParamName \<times> real) list"
  onParameterChange_calls :: "(ParamName \<times> real) list"

text \<open>The control definitions of \<open>setupControls\<close>, in their order.\<close>

definition control_params :: "ParamName list" where
  "control_params =
     [EffectIntensity, ContrastPower, ColorSaturation, HeatSensitivity, VideoBlendAmount,
      GradientShift, HeatDecay, InteractionRadius, Reactivity]"

text \<open>
  The constructor, for a document that holds every HUD element (a missing element makes
  \<^verbatim>\<open>getRequiredElement\<close> throw during construction, before any controller exists).
\<close>

definition ParameterController_new :: ParameterController where
  "ParameterController_new =
     (let parameters = DEFAULT_PARAMETERS
      in \<lparr>pc_parameters = parameters,
          parameterControls = map (\<lambda>param. (param, param_get parameters param)) control_params,
          onParameterChange_calls = []\<rparr>)"

definition setParameter :: "ParamName \<Rightarrow> real \<Rightarrow> ParameterController \<Rightarrow> ParameterController" where
  "setParameter name v pc =
     (let range = PARAMETER_RANGES name;
          v' = (case range of
                  Some r \<Rightarrow> max (range_min r) (min (range_max r) v)
                | None \<Rightarrow> v)
      in pc\<lparr>pc_parameters := param_set (pc_parameters pc) name v',
             onParameterChange_calls := onParameterChange_calls pc @ [(name, v')]\<rparr>)"

definition getParameter :: "ParamName \<Rightarrow> ParameterController \<Rightarrow> real" where
  "getParameter name pc = param_get (pc_parameters pc) name"

definition getAllParameters :: "ParameterController \<Rightarrow> EffectParameters" where
  "getAllParameters pc = pc_parameters pc"

text \<open>
  \<open>resetToDefaults\<close> replaces the parameter object by a copy of the defaults, then walks
  the control map: each control shows its default and the owner is notified.
\<close>

definition resetToDefaults :: "ParameterController \<Rightarrow> ParameterController" where
  "resetToDefaults pc =
     (let pc1 = pc\<lparr>pc_parameters := DEFAULT_PARAMETERS\<rparr>
      in pc1\<lparr>parameterControls :=
               map (\<lambda>(param, shown). (param, param_get DEFAULT_PARAMETERS param))
                   (parameterControls pc1),
             onParameterChange_calls :=
               onParameterChange_calls pc1 @
               map (\<lambda>(param, shown). (param, param_get DEFAULT_PARAMETERS param))
                   (parameterControls pc1)\<rparr>)"

text \<open>\<open>dispose\<close> removes the listeners and empties the control map.\<close>

definition ParameterController_dispose :: "ParameterController \<Rightarrow> ParameterController" where
  "ParameterController_dispose pc = pc\<lparr>parameterControls := []\<rparr>"

section \<open>DrawRenderer (renderer/DrawRenderer.ts)\<close>

text \<open>
  Objects of the rendering library are compared by identity, so a texture is a reference
  (a number) and a render target is the pair of its own reference and the reference of the
  texture it owns. \<^verbatim>\<open>new THREE.WebGLRenderTarget\<close> takes both from the next free
  references. What a pass writes into a texture is the GPU's business and is not modelled;
  the \<^verbatim>\<open>THREE.WebGLRenderer\<close> handed to \<open>render\<close> keeps its current target, its
  \<^verbatim>\<open>autoClear\<close> flag and the list of commands it was given. The repository holds the
  class twice, once with its constants inline and once reading them from the
  configuration; the values agree and the methods are the same, so one model serves both.
\<close>

type_synonym TextureRef = nat

record WebGLRenderTarget =
  rt_ref :: nat
  texture :: TextureRef
  rt_width :: real
  rt_height :: real

definition new_WebGLRenderTarget :: "nat \<Rightarrow> real \<Rightarrow> real \<Rightarrow> WebGLRenderTarget \<times> nat" where
  "new_WebGLRenderTarget free w h =
     (\<lparr>rt_ref = free, texture = Suc free, rt_width = w, rt_height = h\<rparr>, Suc (Suc free))"

record DrawRendererOptions =
  radiusRatio :: "real option"
  isMobile :: "bool option"

record DrawRendererUniforms =
  uRadius :: Vector3
  uPosition :: Vector2
  uDirection :: Vector4
  uResolution :: Vector3
  uTexture :: "TextureRef option"
  uSizeDamping :: real
  uFadeDamping :: real
  uDraw :: real

record DrawRenderer =
  renderTargetA :: WebGLRenderTarget
  renderTargetB :: WebGLRenderTarget
  dr_uniforms :: DrawRendererUniforms
  dr_options :: DrawRendererOptions

datatype GLCommand =
  GLClear "WebGLRenderTarget option"
  | GLRender "WebGLRenderTarget option" DrawRendererUniforms

record WebGLRenderer =
  gl_renderTarget :: "WebGLRenderTarget option"
  autoClear :: bool
  gl_commands :: "GLCommand list"

definition gl_clear :: "WebGLRenderer \<Rightarrow> WebGLRenderer" where
  "gl_clear gl = gl\<lparr>gl_commands := gl_commands gl @ [GLClear (gl_renderTarget gl)]\<rparr>"

definition gl_render :: "DrawRendererUniforms \<Rightarrow> WebGLRenderer \<Rightarrow> WebGLRenderer" where
  "gl_render u gl = gl\<lparr>gl_commands := gl_commands gl @ [GLRender (gl_renderTarget gl) u]\<rparr>"

definition createUniforms :: DrawRendererUniforms where
  "createUniforms =
     \<lparr>uRadius = \<lparr>v3_x = -8, v3_y = 0.9, v3_z = 150\<rparr>,
      uPosition = \<lparr>v2_x = 0, v2_y = 0\<rparr>,
      uDirection = \<lparr>v4_x = 0, v4_y = 0, v4_z = 0, v4_w = 0\<rparr>,
      uResolution = \<lparr>v3_x = 0, v3_y = 0, v3_z = 0\<rparr>,
      uTexture = None,
      uSizeDamping = SIZE_DAMPING,
      uFadeDamping = FADE_DAMPING,
      uDraw = 0\<rparr>"

text \<open>The constructor: \<open>free\<close> is the next free object reference, returned advanced.\<close>

definition DrawRenderer_new :: "nat \<Rightarrow> real \<Rightarrow> DrawRendererOptions \<Rightarrow> DrawRenderer \<times> nat" where
  "DrawRenderer_new free sz opts =
     (let (a, free1) = new_WebGLRenderTarget free sz sz;
          (b, free2) = new_WebGLRenderTarget free1 sz sz
      in (\<lparr>renderTargetA = a, renderTargetB = b, dr_uniforms = createUniforms,
           dr_options = opts\<rparr>, free2))"

definition updateRadius :: "real \<Rightarrow> DrawRenderer \<Rightarrow> DrawRenderer" where
  "updateRadius px dr =
     dr\<lparr>dr_uniforms := (dr_uniforms dr)\<lparr>uRadius := (uRadius (dr_uniforms dr))\<lparr>v3_z := px\<rparr>\<rparr>\<rparr>"

definition updateDraw :: "real \<Rightarrow> DrawRenderer \<Rightarrow> DrawRenderer" where
  "updateDraw v dr = dr\<lparr>dr_uniforms := (dr_uniforms dr)\<lparr>uDraw := v\<rparr>\<rparr>"

definition updatePosition :: "Vector3 \<Rightarrow> bool \<Rightarrow> DrawRenderer \<Rightarrow> DrawRenderer" where
  "updatePosition p normalized dr =
     (let x = (if normalized then 0.5 * v3_x p + 0.5 else v3_x p);
          y = (if normalized then 0.5 * v3_y p + 0.5 else v3_y p)
      in dr\<lparr>dr_uniforms := (dr_uniforms dr)\<lparr>uPosition := \<lparr>v2_x = x, v2_y = y\<rparr>\<rparr>\<rparr>)"

definition updateDirection :: "Vector2 \<Rightarrow> DrawRenderer \<Rightarrow> DrawRenderer" where
  "updateDirection d dr =
     dr\<lparr>dr_uniforms := (dr_uniforms dr)
          \<lparr>uDirection := \<lparr>v4_x = v2_x d, v4_y = v2_y d, v4_z = 0, v4_w = DIRECTION_MULTIPLIER\<rparr>\<rparr>\<rparr>"

definition resize :: "real \<Rightarrow> real \<Rightarrow> DrawRenderer \<Rightarrow> DrawRenderer" where
  "resize w h dr =
     (let ratio = h / (case radiusRatio (dr_options dr) of Some r \<Rightarrow> r | None \<Rightarrow> RADIUS_RATIO);
          baseRadius = (if isMobile (dr_options dr) = Some True then MOBILE_RADIUS
                        else DESKTOP_RADIUS);
          radius = baseRadius * ratio;
          dr1 = updateRadius radius dr
      in dr1\<lparr>dr_uniforms := (dr_uniforms dr1)\<lparr>uResolution := \<lparr>v3_x = w, v3_y = h, v3_z = 1\<rparr>\<rparr>\<rparr>)"

definition getTexture :: "DrawRenderer \<Rightarrow> TextureRef" where
  "getTexture dr = texture (renderTargetB dr)"

text \<open>
  \<open>render\<close>: the pass samples target B's texture and draws into target A, the renderer's
  previous target is restored, and the two targets trade places.
\<close>

definition render :: "WebGLRenderer \<Rightarrow> DrawRenderer \<Rightarrow> DrawRenderer \<times> WebGLRenderer" where
  "render gl dr =
     (let dr1 = dr\<lparr>dr_uniforms := (dr_uniforms dr)\<lparr>uTexture := Some (texture (renderTargetB dr))\<rparr>\<rparr>;
          previousTarget = gl_renderTarget gl;
          gl1 = gl\<lparr>gl_renderTarget := Some (renderTargetA dr1)\<rparr>;
          gl2 = (if autoClear gl1 then gl_clear gl1 else gl1);
          gl3 = gl_render (dr_uniforms dr1) gl2;
          gl4 = gl3\<lparr>gl_renderTarget := previousTarget\<rparr>;
          temp = renderTargetA dr1;
          dr2 = dr1\<lparr>renderTargetA := renderTargetB dr1\<rparr>;
          dr3 = dr2\<lparr>renderTargetB := temp\<rparr>
      in (dr3, gl4))"

text \<open>
  The states a \<open>DrawRenderer\<close> can be in: what the constructor returns, and what any of
  its methods makes of such a state (\<open>dispose\<close> releases GPU resources and assigns no
  member).
\<close>

inductive DrawRenderer_reachable :: "DrawRenderer \<Rightarrow> bool" where
  reach_new: "DrawRenderer_reachable (fst (DrawRenderer_new free sz opts))"
| reach_updateRadius: "DrawRenderer_reachable dr \<Longrightarrow> DrawRenderer_reachable (updateRadius px dr)"
| reach_updateDraw: "DrawRenderer_reachable dr \<Longrightarrow> DrawRenderer_reachable (updateDraw v dr)"
| reach_updatePosition:
    "DrawRenderer_reachable dr \<Longrightarrow> DrawRenderer_reachable (updatePosition p n dr)"
| reach_updateDirection:
    "DrawRenderer_reachable dr \<Longrightarrow> DrawRenderer_reachable (updateDirection d dr)"
| reach_resize: "DrawRenderer_reachable dr \<Longrightarrow> DrawRenderer_reachable (resize w h dr)"
| reach_render: "DrawRenderer_reachable dr \<Longrightarrow> DrawRenderer_reachable (fst (render gl dr))"

code_pred DrawRenderer_reachable .

section \<open>The thermal fragment shader's gradient (shaders/thermal.frag)\<close>

text \<open>
  The uniforms of the thermal material. The GLSL built-ins are written out on reals:
  \<open>clamp\<close>, \<open>smoothstep\<close> (Hermite interpolation of the clamped ratio) and \<open>mix\<close>. The
  monolithic scene carries the same \<open>gradient\<close> function in its inline fragment shader.
\<close>

record ThermalShaderUniforms =
  u_blendVideo :: real
  u_drawMap :: TextureRef
  u_textureMap :: "TextureRef option"
  u_maskMap :: "TextureRef option"
  u_scale :: Vector2
  u_offset :: Vector2
  u_opacity :: real
  u_amount :: real
  u_color1 :: Vector3
  u_color2 :: Vector3
  u_color3 :: Vector3
  u_color4 :: Vector3
  u_color5 :: Vector3
  u_color6 :: Vector3
  u_color7 :: Vector3
  u_blend :: Vector4
  u_fade :: Vector4
  u_maxBlend :: Vector4
  u_power :: real
  u_rnd :: real
  u_heat :: Vector4
  u_stretch :: Vector4
  u_effectIntensity :: real
  u_colorSaturation :: real
  u_gradientShift :: real
  u_interactionSize :: real

definition glsl_clamp :: "real \<Rightarrow> real \<Rightarrow> real \<Rightarrow> real" where
  "glsl_clamp x lo hi = min (max x lo) hi"

definition smoothstep :: "real \<Rightarrow> real \<Rightarrow> real \<Rightarrow> real" where
  "smoothstep edge0 edge1 x =
     (let t = glsl_clamp ((x - edge0) / (edge1 - edge0)) 0 1 in t * t * (3 - 2 * t))"

definition mix :: "real \<Rightarrow> real \<Rightarrow> real \<Rightarrow> real" where
  "mix a b t = a * (1 - t) + b * t"

definition mix3 :: "Vector3 \<Rightarrow> Vector3 \<Rightarrow> real \<Rightarrow> Vector3" where
  "mix3 a b t =
     \<lparr>v3_x = mix (v3_x a) (v3_x b) t, v3_y = mix (v3_y a) (v3_y b) t,
      v3_z = mix (v3_z a) (v3_z b) t\<rparr>"

definition gradient :: "ThermalShaderUniforms \<Rightarrow> real \<Rightarrow> Vector3" where
  "gradient u t0 =
     (let t = glsl_clamp (t0 + u_gradientShift u) 0 1;
          p1 = v4_x (u_blend u); p2 = v4_y (u_blend u);
          p3 = v4_z (u_blend u); p4 = v4_w (u_blend u);
          p5 = v4_x (u_maxBlend u); p6 = v4_y (u_maxBlend u);
          f1 = v4_x (u_fade u); f2 = v4_y (u_fade u);
          f3 = v4_z (u_fade u); f4 = v4_w (u_fade u);
          f5 = v4_z (u_maxBlend u); f6 = v4_w (u_maxBlend u);
          b1 = smoothstep (p1 - f1 * 0.5) (p1 + f1 * 0.5) t;
          b2 = smoothstep (p2 - f2 * 0.5) (p2 + f2 * 0.5) t;
          b3 = smoothstep (p3 - f3 * 0.5) (p3 + f3 * 0.5) t;
          b4 = smoothstep (p4 - f4 * 0.5) (p4 + f4 * 0.5) t;
          b5 = smoothstep (p5 - f5 * 0.5) (p5 + f5 * 0.5) t;
          b6 = smoothstep (p6 - f6 * 0.5) (p6 + f6 * 0.5) t;
          col = u_color1 u;
          col = mix3 col (u_color2 u) b1;
          col = mix3 col (u_color3 u) b2;
          col = mix3 col (u_color4 u) b3;
          col = mix3 col (u_color5 u) b4;
          col = mix3 col (u_color6 u) b5;
          col = mix3 col (u_color7 u) b6
      in col)"

text \<open>
  The gradient as the specification words it, for comparison with the shader's: the colour
  starts at stop 1 and the stops 2 to 7 are blended in, in this order, each over a
  smoothstep transition centred at its blend point with its fade width; the lookup input
  is the shifted input clamped to \<open>[0, 1]\<close>.
\<close>

definition gradient_transitions :: "ThermalShaderUniforms \<Rightarrow> (Vector3 \<times> real \<times> real) list" where
  "gradient_transitions u =
     [(u_color2 u, v4_x (u_blend u), v4_x (u_fade u)),
      (u_color3 u, v4_y (u_blend u), v4_y (u_fade u)),
      (u_color4 u, v4_z (u_blend u), v4_z (u_fade u)),
      (u_color5 u, v4_w (u_blend u), v4_w (u_fade u)),
      (u_color6 u, v4_x (u_maxBlend u), v4_z (u_maxBlend u)),
      (u_color7 u, v4_y (u_maxBlend u), v4_w (u_maxBlend u))]"

definition gradient_at :: "ThermalShaderUniforms \<Rightarrow> real \<Rightarrow> Vector3" where
  "gradient_at u x =
     foldl (\<lambda>col (c, p, f). mix3 col c (smoothstep (p - f * 0.5) (p + f * 0.5) x))
       (u_color1 u) (gradient_transitions u)"

definition gradient_spec :: "ThermalShaderUniforms \<Rightarrow> real \<Rightarrow> Vector3" where
  "gradient_spec u t = gradient_at u (glsl_clamp (t + u_gradientShift u) 0 1)"

section \<open>Animation state shared by both scenes (types)\<close>

record AnimationValue =
  av_value :: real
  av_target :: real

text \<open>\<^verbatim>\<open>{ position, target }\<close>: the shape of \<^verbatim>\<open>MouseState\<close> and of the scene's \<^verbatim>\<open>mouse\<close>.\<close>

record MouseState =
  position :: Vector3
  target :: Vector3

record ScrollAnimation =
  sa_opacity :: AnimationValue
  sa_scale :: AnimationValue
  sa_power :: AnimationValue

text \<open>
  The thermal palette after \<open>hexToRGB\<close> (each channel is its two hex digits over 255)
  and the uniforms both scenes create for the thermal material.
\<close>

definition rgb :: "real \<Rightarrow> real \<Rightarrow> real \<Rightarrow> Vector3" where
  "rgb r g b = \<lparr>v3_x = r / 255, v3_y = g / 255, v3_z = b / 255\<rparr>"

definition thermal_uniforms ::
  "TextureRef \<Rightarrow> TextureRef option \<Rightarrow> TextureRef option \<Rightarrow> ThermalShaderUniforms" where
  "thermal_uniforms drawTexture videoTex maskTex =
     \<lparr>u_blendVideo = 0, u_drawMap = drawTexture, u_textureMap = videoTex, u_maskMap = maskTex,
      u_scale = \<lparr>v2_x = 1, v2_y = 1\<rparr>, u_offset = \<lparr>v2_x = 0, v2_y = 0\<rparr>,
      u_opacity = 1, u_amount = 0,
      u_color1 = rgb 0 0 0, u_color2 = rgb 7 61 255, u_color3 = rgb 83 213 253,
      u_color4 = rgb 254 252 221, u_color5 = rgb 255 236 106, u_color6 = rgb 249 212 0,
      u_color7 = rgb 166 25 4,
      u_blend = \<lparr>v4_x = 0.4, v4_y = 0.7, v4_z = 0.81, v4_w = 0.91\<rparr>,
      u_fade = \<lparr>v4_x = 1, v4_y = 1, v4_z = 0.72, v4_w = 0.52\<rparr>,
      u_maxBlend = \<lparr>v4_x = 0.8, v4_y = 0.87, v4_z = 0.5, v4_w = 0.27\<rparr>,
      u_power = 0.8, u_rnd = 0,
      u_heat = \<lparr>v4_x = 0, v4_y = 0, v4_z = 0, v4_w = 1.02\<rparr>,
      u_stretch = \<lparr>v4_x = 1, v4_y = 1, v4_z = 0, v4_w = 0\<rparr>,
      u_effectIntensity = 1.0, u_colorSaturation = 1.3, u_gradientShift = 0.0,
      u_interactionSize = 1.0\<rparr>"

section \<open>The monolithic scene (scenes/AppScene.ts)\<close>

text \<open>
  The scene as one record, from the point in \<open>init\<close> where the draw renderer exists (the
  first thing \<open>init\<close> creates, before the video element whose \<^verbatim>\<open>loadeddata\<close> event alone
  sets the ready flags). Fields carry the prefix \<open>l_\<close>. \<open>l_lastNX\<close> and \<open>l_lastNY\<close> are the
  variables the pointer handlers close over. The mesh \<open>heat\<close> is absent until \<open>addHeat\<close>.
  Of the video element the scene keeps the playback position, the one member \<open>update\<close>
  reads and writes.
\<close>

record HeatMesh =
  material_uniforms :: ThermalShaderUniforms
  mesh_scale :: Vector3

record LegacyScene =
  l_videoReady :: bool
  l_textureReady :: bool
  l_blendVideo :: AnimationValue
  l_amount :: AnimationValue
  l_mouse :: MouseState
  l_move :: AnimationValue
  l_scrollAnimation :: ScrollAnimation
  l_hold :: bool
  l_heatUp :: real
  l_parameters :: EffectParameters
  l_drawRenderer :: DrawRenderer
  l_heat :: "HeatMesh option"
  l_video_currentTime :: real
  l_videoTexture :: "TextureRef option"
  l_maskTexture :: "TextureRef option"
  l_lastNX :: real
  l_lastNY :: real
  l_winLastNX :: "real option"
  l_winLastNY :: "real option"

definition LegacyScene_init :: "nat \<Rightarrow> bool \<Rightarrow> LegacyScene" where
  "LegacyScene_init free mobile =
     \<lparr>l_videoReady = False, l_textureReady = False,
      l_blendVideo = \<lparr>av_value = 0, av_target = 0\<rparr>,
      l_amount = \<lparr>av_value = 0, av_target = 0\<rparr>,
      l_mouse = \<lparr>position = \<lparr>v3_x = 0, v3_y = 0, v3_z = 0\<rparr>,
                 target = \<lparr>v3_x = 0, v3_y = 0, v3_z = 0\<rparr>\<rparr>,
      l_move = \<lparr>av_value = 1, av_target = 1\<rparr>,
      l_scrollAnimation =
        \<lparr>sa_opacity = \<lparr>av_value = 1, av_target = 1\<rparr>,
         sa_scale = \<lparr>av_value = 1, av_target = 1\<rparr>,
         sa_power = \<lparr>av_value = 0.8, av_target = 0.8\<rparr>\<rparr>,
      l_hold = False, l_heatUp = 0,
      l_parameters =
        \<lparr>effectIntensity = 1.0, contrastPower = 0.8, colorSaturation = 1.3,
         heatSensitivity = 0.5, videoBlendAmount = 1.0, gradientShift = 0.0,
         heatDecay = 0.95, interactionRadius = 1.0, reactivity = 1.0\<rparr>,
      l_drawRenderer =
        fst (DrawRenderer_new free 256 \<lparr>radiusRatio = Some 1000, isMobile = Some mobile\<rparr>),
      l_heat = None, l_video_currentTime = 0, l_videoTexture = None, l_maskTexture = None,
      l_lastNX = 0.5, l_lastNY = 0.5, l_winLastNX = None, l_winLastNY = None\<rparr>"

text \<open>\<open>onVideoReady\<close>; \<open>vt\<close> is the reference of the video texture it creates.\<close>

definition l_onVideoReady :: "TextureRef \<Rightarrow> LegacyScene \<Rightarrow> LegacyScene" where
  "l_onVideoReady vt s =
     (if l_videoReady s then s
      else s\<lparr>l_videoTexture := Some vt,
             l_amount := (l_amount s)\<lparr>av_target := 1\<rparr>,
             l_blendVideo := (l_blendVideo s)\<lparr>av_value := 1\<rparr>,
             l_videoReady := True,
             l_textureReady := True\<rparr>)"

definition l_addHeat :: "LegacyScene \<Rightarrow> LegacyScene" where
  "l_addHeat s =
     s\<lparr>l_heat := Some
         \<lparr>material_uniforms =
            thermal_uniforms (getTexture (l_drawRenderer s)) (l_videoTexture s) (l_maskTexture s),
          mesh_scale = \<lparr>v3_x = 1, v3_y = 1, v3_z = 1\<rparr>\<rparr>\<rparr>"

text \<open>
  The pointer handlers of \<open>attachPointerEvents\<close>: \<open>l_pointerUpdate\<close> is the closure
  \<^verbatim>\<open>update\<close> (bound to pointermove and pointerenter, and run first by pointerdown), given
  the bounding rectangle it reads; pointerup and pointerleave clear \<open>hold\<close>.
\<close>

definition l_pointerUpdate :: "real \<Rightarrow> real \<Rightarrow> DOMRect \<Rightarrow> LegacyScene \<Rightarrow> LegacyScene" where
  "l_pointerUpdate cx cy rectRef s =
     (let nx = (if rect_width rectRef > 0 then (cx - rect_left rectRef) / rect_width rectRef
                else 0.5);
          ny = (if rect_height rectRef > 0 then (cy - rect_top rectRef) / rect_height rectRef
                else 0.5);
          x = 2 * (nx - 0.5);
          y = 2 * - (ny - 0.5);
          ndx = nx - l_lastNX s;
          ndy = ny - l_lastNY s
      in s\<lparr>l_lastNX := nx, l_lastNY := ny,
             l_mouse := (l_mouse s)\<lparr>target := \<lparr>v3_x = x, v3_y = y, v3_z = 0\<rparr>\<rparr>,
             l_drawRenderer := updateDirection \<lparr>v2_x = ndx, v2_y = ndy\<rparr> (l_drawRenderer s),
             l_hold := True\<rparr>)"

definition l_pointerDown :: "real \<Rightarrow> real \<Rightarrow> DOMRect \<Rightarrow> LegacyScene \<Rightarrow> LegacyScene" where
  "l_pointerDown cx cy rectRef s = (l_pointerUpdate cx cy rectRef s)\<lparr>l_hold := True\<rparr>"

definition l_pointerUp :: "LegacyScene \<Rightarrow> LegacyScene" where
  "l_pointerUp s = s\<lparr>l_hold := False\<rparr>"

text \<open>
  The window-level pointermove handler \<^verbatim>\<open>updateWin\<close> of \<open>init\<close>; its last position lives
  in two members that are undefined until the first event (\<^verbatim>\<open>?? 0.5\<close>).
\<close>

definition l_updateWin :: "real \<Rightarrow> real \<Rightarrow> DOMRect \<Rightarrow> LegacyScene \<Rightarrow> LegacyScene" where
  "l_updateWin clientX clientY rectRef s =
     (let nx = (if rect_width rectRef > 0 then (clientX - rect_left rectRef) / rect_width rectRef
                else 0.5);
          ny = (if rect_height rectRef > 0 then (clientY - rect_top rectRef) / rect_height rectRef
                else 0.5);
          x = 2 * (nx - 0.5);
          y = 2 * - (ny - 0.5);
          ndx = nx - (case l_winLastNX s of Some v \<Rightarrow> v | None \<Rightarrow> 0.5);
          ndy = ny - (case l_winLastNY s of Some v \<Rightarrow> v | None \<Rightarrow> 0.5)
      in s\<lparr>l_winLastNX := Some nx, l_winLastNY := Some ny,
             l_mouse := (l_mouse s)\<lparr>target := \<lparr>v3_x = x, v3_y = y, v3_z = 0\<rparr>\<rparr>,
             l_drawRenderer := updateDirection \<lparr>v2_x = ndx, v2_y = ndy\<rparr> (l_drawRenderer s),
             l_hold := True\<rparr>)"

definition l_setParameter :: "ParamName \<Rightarrow> real \<Rightarrow> LegacyScene \<Rightarrow> LegacyScene" where
  "l_setParameter name v s = s\<lparr>l_parameters := param_set (l_parameters s) name v\<rparr>"

definition l_resetParameters :: "LegacyScene \<Rightarrow> LegacyScene" where
  "l_resetParameters s =
     s\<lparr>l_parameters :=
         \<lparr>effectIntensity = 1.0, contrastPower = 0.8, colorSaturation = 1.3,
          heatSensitivity = 0.5, videoBlendAmount = 1.0, gradientShift = 0.0,
          heatDecay = 0.95, interactionRadius = 1.0, reactivity = 1.0\<rparr>\<rparr>"

text \<open>
  \<open>update(dt)\<close>, in the five blocks its comments mark: the interpolation of the animation
  values, the video and interaction block, the shader uniforms, the cool-down of the heat,
  and the reset of the interaction state. Within a block each local name holds the value
  the statement assigns to the member of that name (a later binding of the same name is the
  later assignment), and the scene is written once at the block's end. A guarded assignment
  \<^verbatim>\<open>if (c) x = v\<close> is the assignment of \<open>if c then v else x\<close>. \<open>rnd\<close> is the value
  \<^verbatim>\<open>Math.random()\<close> returns in this call.
\<close>

definition l_animate :: "real \<Rightarrow> LegacyScene \<Rightarrow> LegacyScene" where
  "l_animate dt s =
     (let mouse_position =
            Vector3_lerp (position (l_mouse s)) (target (l_mouse s)) (lerpSpeed 0.8 dt);
          move_target = (if l_hold s then 0.95 else 1.0);
          power_target = (if l_hold s then 1.0 else 0.8);
          move_value = lerp (av_value (l_move s)) move_target (lerpSpeed 0.01 dt);
          power_value =
            lerp (av_value (sa_power (l_scrollAnimation s))) power_target (lerpSpeed 0.01 dt);
          power_value = (if power_value < 0.8 then 0.8 else power_value);
          power_value = (if power_value > 1.0 then 1.0 else power_value);
          opacity_value =
            lerp (av_value (sa_opacity (l_scrollAnimation s)))
                 (av_target (sa_opacity (l_scrollAnimation s)) * move_value) (lerpSpeed 0.2 dt);
          scale_value =
            lerp (av_value (sa_scale (l_scrollAnimation s)))
                 (av_target (sa_scale (l_scrollAnimation s))) (lerpSpeed 0.2 dt);
          amount_value =
            (if av_value (l_amount s) < 0.99999
             then lerp (av_value (l_amount s)) (av_target (l_amount s)) (0.1 * dt * 60)
             else av_value (l_amount s))
      in s\<lparr>l_mouse := (l_mouse s)\<lparr>position := mouse_position\<rparr>,
            l_move := \<lparr>av_value = move_value, av_target = move_target\<rparr>,
            l_scrollAnimation :=
              \<lparr>sa_opacity = (sa_opacity (l_scrollAnimation s))\<lparr>av_value := opacity_value\<rparr>,
               sa_scale = (sa_scale (l_scrollAnimation s))\<lparr>av_value := scale_value\<rparr>,
               sa_power = \<lparr>av_value = power_value, av_target = power_target\<rparr>\<rparr>,
            l_amount := (l_amount s)\<lparr>av_value := amount_value\<rparr>\<rparr>)"

definition l_videoInteraction :: "real \<Rightarrow> LegacyScene \<Rightarrow> LegacyScene" where
  "l_videoInteraction dt s =
     (if l_videoReady s then
        let currentTime =
              (if l_video_currentTime s \<ge> 11.95 then 2.95 else l_video_currentTime s);
            dr = updatePosition (position (l_mouse s)) True (l_drawRenderer s);
            heat =
              (if l_hold s then
                 let h = l_heatUp s + heatSensitivity (l_parameters s) * dt * 60
                 in (if h > 1.3 then 1.3 else h)
               else l_heatUp s);
            dr = updateDraw heat dr;
            blendVideo_value =
              lerp (av_value (l_blendVideo s)) (av_target (l_blendVideo s)) (lerpSpeed 0.1 dt)
        in s\<lparr>l_video_currentTime := currentTime,
              l_drawRenderer := dr,
              l_heatUp := heat,
              l_blendVideo := (l_blendVideo s)\<lparr>av_value := blendVideo_value\<rparr>\<rparr>
      else s)"

definition l_shaderUniforms :: "real \<Rightarrow> LegacyScene \<Rightarrow> LegacyScene" where
  "l_shaderUniforms rnd s =
     (case l_heat s of
        None \<Rightarrow> s
      | Some mesh \<Rightarrow>
          let u = material_uniforms mesh;
              u = u\<lparr>u_rnd := rnd\<rparr>;
              u = u\<lparr>u_opacity := av_value (sa_opacity (l_scrollAnimation s))\<rparr>;
              u = u\<lparr>u_power := contrastPower (l_parameters s)\<rparr>;
              u = u\<lparr>u_amount := av_value (l_amount s)\<rparr>;
              u = u\<lparr>u_blendVideo := videoBlendAmount (l_parameters s)\<rparr>;
              u = (case l_videoTexture s of Some vt \<Rightarrow> u\<lparr>u_textureMap := Some vt\<rparr> | None \<Rightarrow> u);
              u = u\<lparr>u_effectIntensity := effectIntensity (l_parameters s)\<rparr>;
              u = u\<lparr>u_colorSaturation := colorSaturation (l_parameters s)\<rparr>;
              u = u\<lparr>u_gradientShift := gradientShift (l_parameters s)\<rparr>;
              u = u\<lparr>u_interactionSize := interactionRadius (l_parameters s)\<rparr>;
              sc = av_value (sa_scale (l_scrollAnimation s))
          in s\<lparr>l_heat := Some (mesh\<lparr>material_uniforms := u,
                                     mesh_scale := \<lparr>v3_x = sc, v3_y = sc, v3_z = sc\<rparr>\<rparr>)\<rparr>)"

definition l_coolDown :: "LegacyScene \<Rightarrow> LegacyScene" where
  "l_coolDown s0 =
     (let s = s0\<lparr>l_heatUp := l_heatUp s0 * heatDecay (l_parameters s0)\<rparr>
      in s\<lparr>l_heatUp := (if l_heatUp s < 0.001 then 0 else l_heatUp s)\<rparr>)"

definition l_resetInteraction :: "LegacyScene \<Rightarrow> LegacyScene" where
  "l_resetInteraction s0 =
     (let s = s0\<lparr>l_drawRenderer := updateDirection \<lparr>v2_x = 0, v2_y = 0\<rparr> (l_drawRenderer s0)\<rparr>
      in s\<lparr>l_hold := False\<rparr>)"

definition l_update :: "real \<Rightarrow> real \<Rightarrow> LegacyScene \<Rightarrow> LegacyScene" where
  "l_update dt rnd s =
     (if \<not> l_textureReady s then s
      else l_resetInteraction (l_coolDown (l_shaderUniforms rnd (l_videoInteraction dt
             (l_animate dt s)))))"

section \<open>The component-based scene\<close>

subsection \<open>ThermalMaterial (components/ThermalMaterial.ts)\<close>

record ThermalMaterial =
  tm_uniforms :: ThermalShaderUniforms

text \<open>The argument object of \<open>updateUniforms\<close>: every member is optional.\<close>

record UniformUpdates =
  upd_opacity :: "real option"
  upd_amount :: "real option"
  upd_power :: "real option"
  upd_blendVideo :: "real option"
  upd_effectIntensity :: "real option"
  upd_colorSaturation :: "real option"
  upd_gradientShift :: "real option"
  upd_interactionSize :: "real option"
  upd_randomValue :: "real option"

definition no_updates :: UniformUpdates where
  "no_updates =
     \<lparr>upd_opacity = None, upd_amount = None, upd_power = None, upd_blendVideo = None,
      upd_effectIntensity = None, upd_colorSaturation = None, upd_gradientShift = None,
      upd_interactionSize = None, upd_randomValue = None\<rparr>"

definition ThermalMaterial_new ::
  "TextureRef \<Rightarrow> TextureRef option \<Rightarrow> TextureRef option \<Rightarrow> ThermalMaterial" where
  "ThermalMaterial_new drawTexture videoTex maskTex =
     \<lparr>tm_uniforms = thermal_uniforms drawTexture videoTex maskTex\<rparr>"

definition updateUniforms :: "UniformUpdates \<Rightarrow> ThermalMaterial \<Rightarrow> ThermalMaterial" where
  "updateUniforms updates tm =
     (let u = tm_uniforms tm;
          u = (case upd_opacity updates of Some v \<Rightarrow> u\<lparr>u_opacity := v\<rparr> | None \<Rightarrow> u);
          u = (case upd_amount updates of Some v \<Rightarrow> u\<lparr>u_amount := v\<rparr> | None \<Rightarrow> u);
          u = (case upd_power updates of Some v \<Rightarrow> u\<lparr>u_power := v\<rparr> | None \<Rightarrow> u);
          u = (case upd_blendVideo updates of Some v \<Rightarrow> u\<lparr>u_blendVideo := v\<rparr> | None \<Rightarrow> u);
          u = (case upd_effectIntensity updates of
                 Some v \<Rightarrow> u\<lparr>u_effectIntensity := v\<rparr> | None \<Rightarrow> u);
          u = (case upd_colorSaturation updates of
                 Some v \<Rightarrow> u\<lparr>u_colorSaturation := v\<rparr> | None \<Rightarrow> u);
          u = (case upd_gradientShift updates of
                 Some v \<Rightarrow> u\<lparr>u_gradientShift := v\<rparr> | None \<Rightarrow> u);
          u = (case upd_interactionSize updates of
                 Some v \<Rightarrow> u\<lparr>u_interactionSize := v\<rparr> | None \<Rightarrow> u);
          u = (case upd_randomValue updates of Some v \<Rightarrow> u\<lparr>u_rnd := v\<rparr> | None \<Rightarrow> u)
      in tm\<lparr>tm_uniforms := u\<rparr>)"

definition updateFromParameters :: "EffectParameters \<Rightarrow> ThermalMaterial \<Rightarrow> ThermalMaterial" where
  "updateFromParameters parameters tm =
     updateUniforms
       (no_updates\<lparr>upd_effectIntensity := Some (effectIntensity parameters),
                   upd_colorSaturation := Some (colorSaturation parameters),
                   upd_gradientShift := Some (gradientShift parameters),
                   upd_interactionSize := Some (interactionRadius parameters),
                   upd_power := Some (contrastPower parameters),
                   upd_blendVideo := Some (videoBlendAmount parameters)\<rparr>) tm"

subsection \<open>InteractionManager state (components/InteractionManager.ts)\<close>

record InteractionState =
  hold :: bool
  is_heatUp :: real
  lastNX :: real
  lastNY :: real

record InteractionManager =
  mouseState :: MouseState
  interactionState :: InteractionState

definition InteractionManager_new :: InteractionManager where
  "InteractionManager_new =
     \<lparr>mouseState = \<lparr>position = \<lparr>v3_x = 0, v3_y = 0, v3_z = 0\<rparr>,
                      target = \<lparr>v3_x = 0, v3_y = 0, v3_z = 0\<rparr>\<rparr>,
      interactionState = \<lparr>hold = False, is_heatUp = 0, lastNX = 0.5, lastNY = 0.5\<rparr>\<rparr>"

definition updateMousePosition :: "real \<Rightarrow> InteractionManager \<Rightarrow> InteractionManager" where
  "updateMousePosition lerpFactor im =
     im\<lparr>mouseState := (mouseState im)\<lparr>position :=
          Vector3_lerp (position (mouseState im)) (target (mouseState im)) lerpFactor\<rparr>\<rparr>"

subsection \<open>AppScene\<close>

text \<open>
  The scene from the point in \<open>init\<close> where the draw renderer exists. The interaction
  manager, the parameter controller and the thermal material are created later in \<open>init\<close>,
  after the assets were awaited, so each is optional; a method call on a missing one is the
  \<^verbatim>\<open>TypeError\<close> JavaScript throws. A call that throws keeps the assignments made before:
  its result is \<open>Inl\<close> of the error and the scene as the throw left it. As in the
  monolithic scene, a method's local names hold the values its statements assign, and the
  scene is written once at the method's end.
\<close>

datatype js_error = TypeError

record AnimationValues =
  blendVideo :: AnimationValue
  amount :: AnimationValue
  mouse :: MouseState
  move :: AnimationValue
  scrollAnimation :: ScrollAnimation

record AppScene =
  videoReady :: bool
  textureReady :: bool
  heatUp :: real
  animationValues :: AnimationValues
  drawRenderer :: DrawRenderer
  interactionManager :: "InteractionManager option"
  parameterController :: "ParameterController option"
  thermalMaterial :: "ThermalMaterial option"
  heatMesh_scale :: "Vector3 option"
  video_currentTime :: real
  videoTexture :: "TextureRef option"
  maskTexture :: "TextureRef option"

type_synonym 'a outcome = "(js_error \<times> 'a) + 'a"

fun state_after :: "'a outcome \<Rightarrow> 'a" where
  "state_after (Inl (e, s)) = s"
| "state_after (Inr s) = s"

definition AppScene_init :: "nat \<Rightarrow> bool \<Rightarrow> AppScene" where
  "AppScene_init free mobile =
     \<lparr>videoReady = False, textureReady = False, heatUp = 0,
      animationValues =
        \<lparr>blendVideo = \<lparr>av_value = 0, av_target = 0\<rparr>,
         amount = \<lparr>av_value = 0, av_target = 0\<rparr>,
         mouse = \<lparr>position = \<lparr>v3_x = 0, v3_y = 0, v3_z = 0\<rparr>,
                  target = \<lparr>v3_x = 0, v3_y = 0, v3_z = 0\<rparr>\<rparr>,
         move = \<lparr>av_value = 1, av_target = 1\<rparr>,
         scrollAnimation =
           \<lparr>sa_opacity = \<lparr>av_value = 1, av_target = 1\<rparr>,
            sa_scale = \<lparr>av_value = 1, av_target = 1\<rparr>,
            sa_power = \<lparr>av_value = 0.8, av_target = 0.8\<rparr>\<rparr>\<rparr>,
      drawRenderer =
        fst (DrawRenderer_new free 256 \<lparr>radiusRatio = Some 1000, isMobile = Some mobile\<rparr>),
      interactionManager = None, parameterController = None, thermalMaterial = None,
      heatMesh_scale = None, video_currentTime = 0, videoTexture = None, maskTexture = None\<rparr>"

definition handleVideoReady :: "TextureRef \<Rightarrow> AppScene \<Rightarrow> AppScene" where
  "handleVideoReady vt s =
     (if videoReady s then s
      else
        let s = s\<lparr>videoTexture := Some vt\<rparr>;
            s = (case thermalMaterial s of
                   Some tm \<Rightarrow>
                     s\<lparr>thermalMaterial :=
                         Some (tm\<lparr>tm_uniforms := (tm_uniforms tm)\<lparr>u_textureMap := Some vt\<rparr>\<rparr>)\<rparr>
                 | None \<Rightarrow> s);
            s = s\<lparr>animationValues := (animationValues s)\<lparr>amount :=
                  (amount (animationValues s))\<lparr>av_target := 1\<rparr>\<rparr>\<rparr>;
            s = s\<lparr>animationValues := (animationValues s)\<lparr>blendVideo :=
                  (blendVideo (animationValues s))\<lparr>av_value := 1\<rparr>\<rparr>\<rparr>;
            s = s\<lparr>videoReady := True\<rparr>;
            s = s\<lparr>textureReady := True\<rparr>
        in s)"

definition createThermalEffect :: "AppScene \<Rightarrow> AppScene" where
  "createThermalEffect s =
     s\<lparr>thermalMaterial :=
         Some (ThermalMaterial_new (getTexture (drawRenderer s)) (videoTexture s) (maskTexture s)),
       heatMesh_scale := Some \<lparr>v3_x = 1, v3_y = 1, v3_z = 1\<rparr>\<rparr>"

definition setupInteractionManager :: "AppScene \<Rightarrow> AppScene" where
  "setupInteractionManager s = s\<lparr>interactionManager := Some InteractionManager_new\<rparr>"

definition setupParameterController :: "AppScene \<Rightarrow> AppScene" where
  "setupParameterController s = s\<lparr>parameterController := Some ParameterController_new\<rparr>"

text \<open>
  \<open>setInteracting\<close> with the scene's \<open>onInteractionChange\<close> callback: the flag changes and
  the callback runs only on a transition.
\<close>

definition setInteracting :: "bool \<Rightarrow> AppScene \<Rightarrow> AppScene" where
  "setInteracting isInteracting s =
     (case interactionManager s of
        None \<Rightarrow> s
      | Some im \<Rightarrow>
          if hold (interactionState im) \<noteq> isInteracting then
            let im = im\<lparr>interactionState := (interactionState im)\<lparr>hold := isInteracting\<rparr>\<rparr>;
                s = s\<lparr>interactionManager := Some im\<rparr>;
                s = s\<lparr>animationValues := (animationValues s)\<lparr>move :=
                      (move (animationValues s))\<lparr>av_target :=
                         (if isInteracting then HOLD_MOVE_TARGET else RELEASE_MOVE_TARGET)\<rparr>\<rparr>\<rparr>;
                s = s\<lparr>animationValues := (animationValues s)\<lparr>scrollAnimation :=
                      (scrollAnimation (animationValues s))\<lparr>sa_power :=
                         (sa_power (scrollAnimation (animationValues s)))\<lparr>av_target :=
                            (if isInteracting then HOLD_POWER_TARGET
                             else RELEASE_POWER_TARGET)\<rparr>\<rparr>\<rparr>\<rparr>
            in s
          else s)"

text \<open>
  The interaction manager's \<open>updatePosition\<close> with the scene's \<open>onPositionUpdate\<close>
  callback (which copies the target into the animation values and hands the movement to
  the draw renderer), and the pointer handlers built from it. The listeners exist only
  once the manager does.
\<close>

definition InteractionManager_updatePosition ::
  "real \<Rightarrow> real \<Rightarrow> DOMRect \<Rightarrow> AppScene \<Rightarrow> AppScene" where
  "InteractionManager_updatePosition clientX clientY bounds s =
     (case interactionManager s of
        None \<Rightarrow> s
      | Some im \<Rightarrow>
          let p = screenToNDC clientX clientY bounds;
              delta = calculateMovementDelta clientX clientY
                        (lastNX (interactionState im)) (lastNY (interactionState im)) bounds;
              pointer_target = \<lparr>v3_x = v2_x p, v3_y = v2_y p, v3_z = 0\<rparr>;
              nx = (if rect_width bounds > 0
                    then (clientX - rect_left bounds) / rect_width bounds else 0.5);
              ny = (if rect_height bounds > 0
                    then (clientY - rect_top bounds) / rect_height bounds else 0.5)
          in s\<lparr>interactionManager := Some
                  (im\<lparr>mouseState := (mouseState im)\<lparr>target := pointer_target\<rparr>,
                       interactionState := (interactionState im)\<lparr>lastNX := nx, lastNY := ny\<rparr>\<rparr>),
                animationValues := (animationValues s)\<lparr>mouse :=
                  (mouse (animationValues s))\<lparr>target := pointer_target\<rparr>\<rparr>,
                drawRenderer := updateDirection delta (drawRenderer s)\<rparr>)"

definition handlePointerMove :: "real \<Rightarrow> real \<Rightarrow> DOMRect \<Rightarrow> AppScene \<Rightarrow> AppScene" where
  "handlePointerMove clientX clientY bounds s =
     setInteracting True (InteractionManager_updatePosition clientX clientY bounds s)"

definition handlePointerUp :: "AppScene \<Rightarrow> AppScene" where
  "handlePointerUp s = setInteracting False s"

definition updateAnimationValues :: "real \<Rightarrow> AppScene \<Rightarrow> AppScene" where
  "updateAnimationValues deltaTime s =
     (let a = animationValues s;
          mouse_position =
            Vector3_lerp (position (mouse a)) (target (mouse a))
              (lerpSpeed MOUSE_INTERPOLATION_SPEED deltaTime);
          move_value =
            lerp (av_value (move a)) (av_target (move a))
              (lerpSpeed MOVEMENT_INTERPOLATION_SPEED deltaTime);
          power_value =
            clamp (lerp (av_value (sa_power (scrollAnimation a)))
                        (av_target (sa_power (scrollAnimation a)))
                        (lerpSpeed POWER_INTERPOLATION_SPEED deltaTime))
                  POWER_MIN POWER_MAX;
          opacity_value =
            lerp (av_value (sa_opacity (scrollAnimation a)))
                 (av_target (sa_opacity (scrollAnimation a)) * move_value)
                 (lerpSpeed SCROLL_INTERPOLATION_SPEED deltaTime);
          scale_value =
            lerp (av_value (sa_scale (scrollAnimation a)))
                 (av_target (sa_scale (scrollAnimation a)))
                 (lerpSpeed SCROLL_INTERPOLATION_SPEED deltaTime);
          amount_value =
            (if av_value (amount a) < 0.99999
             then lerp (av_value (amount a)) (av_target (amount a))
                    (FADE_IN_SPEED * deltaTime * TARGET_FPS)
             else av_value (amount a));
          blendVideo_value =
            (if videoReady s
             then lerp (av_value (blendVideo a)) (av_target (blendVideo a))
                    (lerpSpeed VIDEO_BLEND_SPEED deltaTime)
             else av_value (blendVideo a))
      in s\<lparr>animationValues :=
            \<lparr>blendVideo = (blendVideo a)\<lparr>av_value := blendVideo_value\<rparr>,
             amount = (amount a)\<lparr>av_value := amount_value\<rparr>,
             mouse = (mouse a)\<lparr>position := mouse_position\<rparr>,
             move = (move a)\<lparr>av_value := move_value\<rparr>,
             scrollAnimation =
               \<lparr>sa_opacity = (sa_opacity (scrollAnimation a))\<lparr>av_value := opacity_value\<rparr>,
                sa_scale = (sa_scale (scrollAnimation a))\<lparr>av_value := scale_value\<rparr>,
                sa_power = (sa_power (scrollAnimation a))\<lparr>av_value := power_value\<rparr>\<rparr>\<rparr>\<rparr>)"

definition updateVideoLoop :: "AppScene \<Rightarrow> AppScene" where
  "updateVideoLoop s =
     (if \<not> videoReady s then s
      else s\<lparr>video_currentTime :=
              (if video_currentTime s \<ge> LOOP_END_TIME then LOOP_START_TIME
               else video_currentTime s)\<rparr>)"

definition updateHeatInteraction :: "real \<Rightarrow> AppScene \<Rightarrow> js_error + AppScene" where
  "updateHeatInteraction deltaTime s =
     (if \<not> videoReady s then Inr s
      else
        case interactionManager s of
          None \<Rightarrow> Inl TypeError
        | Some im \<Rightarrow>
           (case parameterController s of
              None \<Rightarrow> Inl TypeError
            | Some pc \<Rightarrow>
                let interaction = interactionState im;
                    pointer = mouseState im;
                    parameters = getAllParameters pc;
                    dr = updatePosition (position pointer) True (drawRenderer s);
                    heat =
                      (if hold interaction then
                         let h = heatUp s + heatSensitivity parameters * deltaTime * TARGET_FPS
                         in min h HEAT_MAX_VALUE
                       else heatUp s);
                    dr = updateDraw heat dr;
                    heat = heat * heatDecay parameters;
                    heat = (if heat < HEAT_CLEANUP_THRESHOLD then 0 else heat);
                    im = updateMousePosition (lerpSpeed MOUSE_INTERPOLATION_SPEED deltaTime) im
                in Inr (s\<lparr>drawRenderer := dr, heatUp := heat, interactionManager := Some im\<rparr>)))"

definition updateThermalMaterial :: "real \<Rightarrow> AppScene \<Rightarrow> js_error + AppScene" where
  "updateThermalMaterial rnd s =
     (case thermalMaterial s of
        None \<Rightarrow> Inr s
      | Some tm \<Rightarrow>
         (case parameterController s of
            None \<Rightarrow> Inl TypeError
          | Some pc \<Rightarrow>
              let parameters = getAllParameters pc
              in Inr (s\<lparr>thermalMaterial := Some
                        (updateUniforms
                           (no_updates
                              \<lparr>upd_opacity := Some (av_value (sa_opacity
                                                  (scrollAnimation (animationValues s)))),
                               upd_amount := Some (av_value (amount (animationValues s))),
                               upd_power := Some (contrastPower parameters),
                               upd_blendVideo := Some (videoBlendAmount parameters),
                               upd_randomValue := Some rnd\<rparr>) tm)\<rparr>)))"

definition updateMeshTransform :: "AppScene \<Rightarrow> AppScene" where
  "updateMeshTransform s =
     (case heatMesh_scale s of
        None \<Rightarrow> s
      | Some old \<Rightarrow>
          let sc = av_value (sa_scale (scrollAnimation (animationValues s)))
          in s\<lparr>heatMesh_scale := Some \<lparr>v3_x = sc, v3_y = sc, v3_z = sc\<rparr>\<rparr>)"

definition updateDrawRenderer :: "AppScene \<Rightarrow> AppScene" where
  "updateDrawRenderer s =
     s\<lparr>drawRenderer := updateDirection \<lparr>v2_x = 0, v2_y = 0\<rparr> (drawRenderer s)\<rparr>"

text \<open>\<open>update(deltaTime)\<close>; \<open>rnd\<close> is what \<^verbatim>\<open>Math.random()\<close> returns in this call.\<close>

definition update :: "real \<Rightarrow> real \<Rightarrow> AppScene \<Rightarrow> AppScene outcome" where
  "update deltaTime rnd s =
     (if \<not> textureReady s then Inr s
      else
        let s1 = updateAnimationValues deltaTime s;
            s2 = updateVideoLoop s1
        in case updateHeatInteraction deltaTime s2 of
             Inl e \<Rightarrow> Inl (e, s2)
           | Inr s3 \<Rightarrow>
              (case updateThermalMaterial rnd s3 of
                 Inl e \<Rightarrow> Inl (e, s3)
               | Inr s4 \<Rightarrow> Inr (updateDrawRenderer (updateMeshTransform s4))))"

text \<open>
  The scene's own \<open>setParameter\<close> delegates to the controller when it exists
  (\<^verbatim>\<open>?.\<close>); the controller then calls the scene's \<open>onParameterChange\<close>, which copies the
  controller's parameters into the thermal material.
\<close>

definition onParameterChange :: "AppScene \<Rightarrow> js_error + AppScene" where
  "onParameterChange s =
     (case parameterController s of
        None \<Rightarrow> Inl TypeError
      | Some pc \<Rightarrow>
         (case thermalMaterial s of
            None \<Rightarrow> Inl TypeError
          | Some tm \<Rightarrow>
              Inr (s\<lparr>thermalMaterial := Some (updateFromParameters (getAllParameters pc) tm)\<rparr>)))"

definition AppScene_setParameter :: "ParamName \<Rightarrow> real \<Rightarrow> AppScene \<Rightarrow> AppScene outcome" where
  "AppScene_setParameter name v s =
     (case parameterController s of
        None \<Rightarrow> Inr s
      | Some pc \<Rightarrow>
          let s1 = s\<lparr>parameterController := Some (setParameter name v pc)\<rparr>
          in case onParameterChange s1 of Inl e \<Rightarrow> Inl (e, s1) | Inr s2 \<Rightarrow> Inr s2)"

section \<open>Runs of frames\<close>

text \<open>
  What a frame shows of the heat is the level \<open>update\<close> hands to the draw renderer
  (\<open>updateDraw\<close>, right after the accumulation step): the \<open>uDraw\<close> uniform.
\<close>

definition l_observedHeat :: "LegacyScene \<Rightarrow> real" where
  "l_observedHeat s = uDraw (dr_uniforms (l_drawRenderer s))"

definition observedHeat :: "AppScene \<Rightarrow> real" where
  "observedHeat s = uDraw (dr_uniforms (drawRenderer s))"

text \<open>
  A run of \<open>update\<close> calls, each with its own \<open>deltaTime\<close> and random value. For the
  component-based scene the run continues from the state a throwing call leaves behind.
\<close>

definition l_frames :: "(real \<times> real) list \<Rightarrow> LegacyScene \<Rightarrow> LegacyScene" where
  "l_frames fs s = foldl (\<lambda>s (dt, rnd). l_update dt rnd s) s fs"

definition frames :: "(real \<times> real) list \<Rightarrow> AppScene \<Rightarrow> AppScene" where
  "frames fs s = foldl (\<lambda>s (dt, rnd). state_after (update dt rnd s)) s fs"

text \<open>
  The monolithic scene clears \<open>hold\<close> at the end of every \<open>update\<close>, so a frame in which
  the pointer is held is a pointer event followed by \<open>update\<close>. A holding frame is given
  by the pointer's position, the bounding rectangle read by the handler and the frame's
  random value.
\<close>

definition l_holdingFrame ::
  "real \<Rightarrow> real \<times> real \<times> DOMRect \<times> real \<Rightarrow> LegacyScene \<Rightarrow> LegacyScene" where
  "l_holdingFrame dt f s =
     (case f of (cx, cy, rectRef, rnd) \<Rightarrow> l_update dt rnd (l_pointerUpdate cx cy rectRef s))"

definition l_holdingFrames ::
  "real \<Rightarrow> (real \<times> real \<times> DOMRect \<times> real) list \<Rightarrow> LegacyScene \<Rightarrow> LegacyScene" where
  "l_holdingFrames dt fs s = foldl (\<lambda>s f. l_holdingFrame dt f s) s fs"

text \<open>The animated power (contrast exponent) value of either scene.\<close>

definition l_powerValue :: "LegacyScene \<Rightarrow> real" where
  "l_powerValue s = av_value (sa_power (l_scrollAnimation s))"

definition powerValue :: "AppScene \<Rightarrow> real" where
  "powerValue s = av_value (sa_power (scrollAnimation (animationValues s)))"

section \<open>Properties\<close>

subsection \<open>Coordinate mapping\<close>

text \<open>
  Claim C5. For a bounding rectangle of positive width and height, \<open>screenToNDC\<close> sends
  the rectangle's top-left corner to \<open>(-1, 1)\<close>, its bottom-right corner to \<open>(1, -1)\<close> and
  its centre to \<open>(0, 0)\<close>; every pointer inside the rectangle lands in \<open>[-1, 1]\<close> on both
  axes, and moving down the screen lowers the \<open>y\<close> output (the axis is flipped).
\<close>

theorem screenToNDC_corners:
  assumes "0 < rect_width b" and "0 < rect_height b"
  shows "screenToNDC (rect_left b) (rect_top b) b = \<lparr>v2_x = -1, v2_y = 1\<rparr>
       \<and> screenToNDC (rect_left b + rect_width b) (rect_top b + rect_height b) b
           = \<lparr>v2_x = 1, v2_y = -1\<rparr>
       \<and> screenToNDC (rect_left b + rect_width b / 2) (rect_top b + rect_height b / 2) b
           = \<lparr>v2_x = 0, v2_y = 0\<rparr>
       \<and> (\<forall>sx sy. rect_left b \<le> sx \<and> sx \<le> rect_left b + rect_width b
                \<and> rect_top b \<le> sy \<and> sy \<le> rect_top b + rect_height b
            \<longrightarrow> - 1 \<le> v2_x (screenToNDC sx sy b) \<and> v2_x (screenToNDC sx sy b) \<le> 1
              \<and> - 1 \<le> v2_y (screenToNDC sx sy b) \<and> v2_y (screenToNDC sx sy b) \<le> 1)
       \<and> (\<forall>sx sy sy'. sy < sy'
            \<longrightarrow> v2_y (screenToNDC sx sy' b) < v2_y (screenToNDC sx sy b))"
proof -
  have unit: "- 1 \<le> 2 * (q - 0.5) \<and> 2 * (q - 0.5) \<le> 1" if "0 \<le> q" "q \<le> 1" for q :: real
    using that by simp
  have inside: "- 1 \<le> 2 * ((s - l) / w - 0.5) \<and> 2 * ((s - l) / w - 0.5) \<le> 1"
    if "0 < w" "l \<le> s" "s \<le> l + w" for s l w :: real
  proof -
    have "0 \<le> (s - l) / w" using that by simp
    moreover have "(s - l) / w \<le> 1" using that by (simp add: divide_le_eq)
    ultimately show ?thesis by (rule unit)
  qed
  have flip: "2 * - ((s' - t) / h - 0.5) < 2 * - ((s - t) / h - 0.5)"
    if "0 < h" "s < s'" for s s' t h :: real
    using that by (simp add: divide_strict_right_mono)
  show ?thesis
    using assms inside [of "rect_width b" "rect_left b"] inside [of "rect_height b" "rect_top b"]
      flip [of "rect_height b"]
    by (auto simp: screenToNDC_def Let_def)
qed

theorem screenToNDC_corners_witness:
  "screenToNDC 10 20 \<lparr>rect_left = 10, rect_top = 20, rect_width = 300, rect_height = 200\<rparr>
     = \<lparr>v2_x = -1, v2_y = 1\<rparr>
   \<and> screenToNDC 310 220 \<lparr>rect_left = 10, rect_top = 20, rect_width = 300, rect_height = 200\<rparr>
     = \<lparr>v2_x = 1, v2_y = -1\<rparr>
   \<and> screenToNDC 160 120 \<lparr>rect_left = 10, rect_top = 20, rect_width = 300, rect_height = 200\<rparr>
     = \<lparr>v2_x = 0, v2_y = 0\<rparr>"
  using screenToNDC_corners
    [of "\<lparr>rect_left = 10, rect_top = 20, rect_width = 300, rect_height = 200\<rparr>"]
  by simp

subsection \<open>Parameter writes and reset\<close>

lemma param_get_set: "param_get (param_set p n v) n = v"
  by (cases n) simp_all

lemma PARAMETER_RANGES_total: "\<exists>r. PARAMETER_RANGES n = Some r \<and> range_min r \<le> range_max r"
  by (cases n) simp_all

text \<open>
  Claim C1, as amended. \<open>ParameterController.setParameter(P, v)\<close> followed by
  \<open>getParameter(P)\<close> returns \<open>clamp(v, min, max)\<close> for the declared range of \<open>P\<close>, for every
  real \<open>v\<close>; the stored value lies in the range and the call has no error branch. The
  component-based scene's \<open>setParameter\<close> hands the write to its controller. The monolithic
  scene's \<open>setParameter\<close> stores \<open>v\<close> as given.
\<close>

theorem setParameter_clamps:
  "(\<exists>r. PARAMETER_RANGES name = Some r
        \<and> getParameter name (setParameter name v pc) = clamp v (range_min r) (range_max r)
        \<and> range_min r \<le> getParameter name (setParameter name v pc)
        \<and> getParameter name (setParameter name v pc) \<le> range_max r)
   \<and> (parameterController s = Some pc \<longrightarrow>
        parameterController (state_after (AppScene_setParameter name v s))
          = Some (setParameter name v pc))
   \<and> param_get (l_parameters (l_setParameter name v ls)) name = v"
proof -
  obtain r where r: "PARAMETER_RANGES name = Some r" "range_min r \<le> range_max r"
    using PARAMETER_RANGES_total by blast
  have g: "getParameter name (setParameter name v pc) = max (range_min r) (min (range_max r) v)"
    by (simp add: getParameter_def setParameter_def r param_get_set Let_def)
  have c: "max (range_min r) (min (range_max r) v) = clamp v (range_min r) (range_max r)"
    using r(2) by (simp add: clamp_def min_def max_def)
  have "\<exists>r. PARAMETER_RANGES name = Some r
        \<and> getParameter name (setParameter name v pc) = clamp v (range_min r) (range_max r)
        \<and> range_min r \<le> getParameter name (setParameter name v pc)
        \<and> getParameter name (setParameter name v pc) \<le> range_max r"
  proof -
    have "range_min r \<le> clamp v (range_min r) (range_max r)"
      and "clamp v (range_min r) (range_max r) \<le> range_max r"
      using r(2) by (simp_all add: clamp_def)
    then show ?thesis using r(1) g c by simp
  qed
  moreover have "parameterController s = Some pc \<longrightarrow>
        parameterController (state_after (AppScene_setParameter name v s))
          = Some (setParameter name v pc)"
    by (auto simp: AppScene_setParameter_def onParameterChange_def Let_def split: option.splits)
  moreover have "param_get (l_parameters (l_setParameter name v ls)) name = v"
    by (simp add: l_setParameter_def param_get_set)
  ultimately show ?thesis by blast
qed

theorem setParameter_clamps_witness:
  "getParameter HeatDecay (setParameter HeatDecay 5 ParameterController_new) = 0.99
   \<and> getParameter GradientShift (setParameter GradientShift (-3) ParameterController_new) = -0.5
   \<and> parameterController (state_after (AppScene_setParameter HeatDecay 5
        (setupParameterController (createThermalEffect (AppScene_init 0 False)))))
      = Some (setParameter HeatDecay 5 ParameterController_new)"
  using setParameter_clamps [of HeatDecay 5 ParameterController_new
          "setupParameterController (createThermalEffect (AppScene_init 0 False))"]
        setParameter_clamps [of GradientShift "-3" ParameterController_new]
  by (simp add: clamp_def setupParameterController_def)

text \<open>
  The claim as stated fails on the monolithic scene: after \<open>setParameter('heatDecay', 5)\<close>
  the stored value is 5, outside the declared range \<open>[0.8, 0.99]\<close>.
\<close>

theorem l_setParameter_unclamped_counterexample:
  "param_get (l_parameters (l_setParameter HeatDecay 5 (LegacyScene_init 0 False))) HeatDecay = 5
   \<and> PARAMETER_RANGES HeatDecay = Some \<lparr>range_min = 0.8, range_max = 0.99, range_step = 0.01\<rparr>
   \<and> \<not> (param_get (l_parameters (l_setParameter HeatDecay 5 (LegacyScene_init 0 False))) HeatDecay
          \<le> 0.99)"
  by (simp add: l_setParameter_def LegacyScene_init_def)

text \<open>
  Claim C9. After any sequence of \<open>setParameter\<close> calls, from any controller state, one
  \<open>resetToDefaults()\<close> leaves all nine parameters at their documented defaults; the same
  holds for \<open>resetParameters()\<close> of the monolithic scene after any sequence of its
  \<open>setParameter\<close> calls.
\<close>

theorem resetToDefaults_restores:
  "getAllParameters (resetToDefaults (foldl (\<lambda>pc (n, v). setParameter n v pc) pc calls))
     = \<lparr>effectIntensity = 1.0, contrastPower = 0.8, colorSaturation = 1.3,
        heatSensitivity = 0.5, videoBlendAmount = 1.0, gradientShift = 0.0,
        heatDecay = 0.95, interactionRadius = 1.0, reactivity = 1.0\<rparr>
   \<and> pc_parameters (resetToDefaults (foldl (\<lambda>pc (n, v). setParameter n v pc) pc calls))
     = DEFAULT_PARAMETERS
   \<and> l_parameters (l_resetParameters (foldl (\<lambda>s (n, v). l_setParameter n v s) ls calls))
     = DEFAULT_PARAMETERS"
  by (simp add: getAllParameters_def resetToDefaults_def l_resetParameters_def
        DEFAULT_PARAMETERS_def Let_def)

subsection \<open>Accumulator ping-pong\<close>

lemma reachable_distinct:
  "DrawRenderer_reachable dr \<Longrightarrow> texture (renderTargetA dr) \<noteq> texture (renderTargetB dr)"
  by (induction rule: DrawRenderer_reachable.induct)
     (auto simp: DrawRenderer_new_def new_WebGLRenderTarget_def updateRadius_def updateDraw_def
        updatePosition_def updateDirection_def resize_def render_def Let_def)

text \<open>
  Claim C4. From any state, two \<open>render()\<close> calls bring \<open>getTexture()\<close> back to the texture
  it returned at the start; in every state the renderer can reach from its constructor, one
  \<open>render()\<close> call makes \<open>getTexture()\<close> return a different texture object than before.
  The pass itself reads the texture that \<open>getTexture()\<close> returned before the call.
\<close>

theorem render_ping_pong:
  "getTexture (fst (render gl' (fst (render gl dr)))) = getTexture dr
   \<and> (DrawRenderer_reachable dr \<longrightarrow> getTexture (fst (render gl dr)) \<noteq> getTexture dr)
   \<and> uTexture (dr_uniforms (fst (render gl dr))) = Some (getTexture dr)"
  using reachable_distinct [of dr]
  by (auto simp: render_def getTexture_def Let_def)

theorem render_ping_pong_witness:
  "DrawRenderer_reachable (fst (DrawRenderer_new 0 256 \<lparr>radiusRatio = Some 1000, isMobile = Some False\<rparr>))
   \<and> getTexture (fst (DrawRenderer_new 0 256 \<lparr>radiusRatio = Some 1000, isMobile = Some False\<rparr>)) = 3
   \<and> getTexture (fst (render \<lparr>gl_renderTarget = None, autoClear = True, gl_commands = []\<rparr>
        (fst (DrawRenderer_new 0 256 \<lparr>radiusRatio = Some 1000, isMobile = Some False\<rparr>)))) = 1"
  using render_ping_pong [of "\<lparr>gl_renderTarget = None, autoClear = True, gl_commands = []\<rparr>"
      "\<lparr>gl_renderTarget = None, autoClear = True, gl_commands = []\<rparr>"
      "fst (DrawRenderer_new 0 256 \<lparr>radiusRatio = Some 1000, isMobile = Some False\<rparr>)"]
    reach_new [of 0 256 "\<lparr>radiusRatio = Some 1000, isMobile = Some False\<rparr>"]
  by (simp add: render_def getTexture_def DrawRenderer_new_def new_WebGLRenderTarget_def Let_def)

subsection \<open>Gradient lookup\<close>

text \<open>
  Claim C6. The shader's \<open>gradient\<close> is the fold of the stops 1 to 7 in their order at the
  input \<open>clamp(t + gradientShift, 0, 1)\<close>: the shift is added, then the sum is clamped. A
  shifted input of 1 or more is looked up at 1 and one of 0 or less at 0; it never wraps.
\<close>

theorem gradient_shift_clamped:
  "gradient u t = gradient_spec u t
   \<and> gradient u t = gradient (u\<lparr>u_gradientShift := 0\<rparr>) (glsl_clamp (t + u_gradientShift u) 0 1)
   \<and> (1 \<le> t + u_gradientShift u \<longrightarrow> gradient u t = gradient (u\<lparr>u_gradientShift := 0\<rparr>) 1)
   \<and> (t + u_gradientShift u \<le> 0 \<longrightarrow> gradient u t = gradient (u\<lparr>u_gradientShift := 0\<rparr>) 0)"
proof -
  have idem: "glsl_clamp (glsl_clamp x 0 1) 0 1 = glsl_clamp x 0 1" for x
    by (simp add: glsl_clamp_def)
  have at: "gradient v x = gradient_at v (glsl_clamp (x + u_gradientShift v) 0 1)" for v x
    by (simp add: gradient_def gradient_at_def gradient_transitions_def Let_def)
  have at0: "gradient_at (u\<lparr>u_gradientShift := 0\<rparr>) x = gradient_at u x" for x
    by (simp add: gradient_at_def gradient_transitions_def)
  have hi: "1 \<le> x \<Longrightarrow> glsl_clamp x 0 1 = 1" and lo: "x \<le> 0 \<Longrightarrow> glsl_clamp x 0 1 = 0" for x
    by (simp_all add: glsl_clamp_def)
  show ?thesis
    using hi [of "t + u_gradientShift u"] lo [of "t + u_gradientShift u"]
    by (simp add: at at0 idem gradient_spec_def) (simp add: glsl_clamp_def)
qed

theorem gradient_shift_clamped_witness:
  "gradient ((thermal_uniforms 0 None None)\<lparr>u_gradientShift := 0.5\<rparr>) 0.9
     = gradient ((thermal_uniforms 0 None None)\<lparr>u_gradientShift := 0\<rparr>) 1
   \<and> gradient ((thermal_uniforms 0 None None)\<lparr>u_gradientShift := - 0.5\<rparr>) 0.25
     = gradient ((thermal_uniforms 0 None None)\<lparr>u_gradientShift := 0\<rparr>) 0"
proof -
  let ?hi = "(thermal_uniforms 0 None None)\<lparr>u_gradientShift := 0.5\<rparr>"
  let ?lo = "(thermal_uniforms 0 None None)\<lparr>u_gradientShift := - 0.5\<rparr>"
  have above: "1 \<le> 0.9 + u_gradientShift ?hi" and below: "0.25 + u_gradientShift ?lo \<le> 0"
    by simp_all
  have "gradient ?hi 0.9 = gradient (?hi\<lparr>u_gradientShift := 0\<rparr>) 1"
    using gradient_shift_clamped [of ?hi "0.9"] above by blast
  moreover have "gradient ?lo 0.25 = gradient (?lo\<lparr>u_gradientShift := 0\<rparr>) 0"
    using gradient_shift_clamped [of ?lo "0.25"] below by blast
  ultimately show ?thesis by simp
qed

subsection \<open>What one frame of the monolithic scene does\<close>

text \<open>The members each block of \<open>update\<close> leaves alone, and the values it assigns.\<close>

lemma l_animate_fields [simp]:
  "l_textureReady (l_animate dt s) = l_textureReady s"
  "l_videoReady (l_animate dt s) = l_videoReady s"
  "l_hold (l_animate dt s) = l_hold s"
  "l_heatUp (l_animate dt s) = l_heatUp s"
  "l_parameters (l_animate dt s) = l_parameters s"
  "l_drawRenderer (l_animate dt s) = l_drawRenderer s"
  by (simp_all add: l_animate_def Let_def)

lemma l_animate_power:
  "av_value (sa_power (l_scrollAnimation (l_animate dt s)))
     = clamp (lerp (av_value (sa_power (l_scrollAnimation s)))
                   (if l_hold s then 1.0 else 0.8) (lerpSpeed 0.01 dt)) 0.8 1.0"
  by (simp add: l_animate_def Let_def clamp_def)

lemma l_videoInteraction_fields [simp]:
  "l_textureReady (l_videoInteraction dt s) = l_textureReady s"
  "l_videoReady (l_videoInteraction dt s) = l_videoReady s"
  "l_hold (l_videoInteraction dt s) = l_hold s"
  "l_parameters (l_videoInteraction dt s) = l_parameters s"
  "l_scrollAnimation (l_videoInteraction dt s) = l_scrollAnimation s"
  by (simp_all add: l_videoInteraction_def Let_def)

lemma l_videoInteraction_heat:
  "l_heatUp (l_videoInteraction dt s)
     = (if l_videoReady s \<and> l_hold s
        then min (l_heatUp s + heatSensitivity (l_parameters s) * dt * 60) 1.3
        else l_heatUp s)"
  "uDraw (dr_uniforms (l_drawRenderer (l_videoInteraction dt s)))
     = (if l_videoReady s
        then (if l_hold s
              then min (l_heatUp s + heatSensitivity (l_parameters s) * dt * 60) 1.3
              else l_heatUp s)
        else uDraw (dr_uniforms (l_drawRenderer s)))"
  by (simp_all add: l_videoInteraction_def Let_def updateDraw_def updatePosition_def min_def)

lemma l_shaderUniforms_fields [simp]:
  "l_textureReady (l_shaderUniforms rnd s) = l_textureReady s"
  "l_videoReady (l_shaderUniforms rnd s) = l_videoReady s"
  "l_hold (l_shaderUniforms rnd s) = l_hold s"
  "l_heatUp (l_shaderUniforms rnd s) = l_heatUp s"
  "l_parameters (l_shaderUniforms rnd s) = l_parameters s"
  "l_drawRenderer (l_shaderUniforms rnd s) = l_drawRenderer s"
  "l_scrollAnimation (l_shaderUniforms rnd s) = l_scrollAnimation s"
  by (simp_all add: l_shaderUniforms_def Let_def split: option.splits)

lemma l_coolDown_fields [simp]:
  "l_textureReady (l_coolDown s) = l_textureReady s"
  "l_videoReady (l_coolDown s) = l_videoReady s"
  "l_hold (l_coolDown s) = l_hold s"
  "l_parameters (l_coolDown s) = l_parameters s"
  "l_drawRenderer (l_coolDown s) = l_drawRenderer s"
  "l_scrollAnimation (l_coolDown s) = l_scrollAnimation s"
  "l_heatUp (l_coolDown s)
     = (if l_heatUp s * heatDecay (l_parameters s) < 0.001 then 0
        else l_heatUp s * heatDecay (l_parameters s))"
  by (simp_all add: l_coolDown_def Let_def)

lemma l_resetInteraction_fields [simp]:
  "l_textureReady (l_resetInteraction s) = l_textureReady s"
  "l_videoReady (l_resetInteraction s) = l_videoReady s"
  "l_hold (l_resetInteraction s) = False"
  "l_parameters (l_resetInteraction s) = l_parameters s"
  "l_heatUp (l_resetInteraction s) = l_heatUp s"
  "l_scrollAnimation (l_resetInteraction s) = l_scrollAnimation s"
  "uDraw (dr_uniforms (l_drawRenderer (l_resetInteraction s))) = uDraw (dr_uniforms (l_drawRenderer s))"
  "uDirection (dr_uniforms (l_drawRenderer (l_resetInteraction s)))
     = \<lparr>v4_x = 0, v4_y = 0, v4_z = 0, v4_w = 100\<rparr>"
  by (simp_all add: l_resetInteraction_def Let_def updateDirection_def DIRECTION_MULTIPLIER_def)

lemma l_update_kept [simp]:
  "l_textureReady (l_update dt rnd s) = l_textureReady s"
  "l_videoReady (l_update dt rnd s) = l_videoReady s"
  "l_parameters (l_update dt rnd s) = l_parameters s"
  by (simp_all add: l_update_def)

lemma l_update_ready:
  assumes "l_textureReady s"
  shows "l_hold (l_update dt rnd s) = False"
    and "uDirection (dr_uniforms (l_drawRenderer (l_update dt rnd s)))
           = \<lparr>v4_x = 0, v4_y = 0, v4_z = 0, v4_w = 100\<rparr>"
    and "av_value (sa_power (l_scrollAnimation (l_update dt rnd s)))
           = clamp (lerp (av_value (sa_power (l_scrollAnimation s)))
                         (if l_hold s then 1.0 else 0.8) (lerpSpeed 0.01 dt)) 0.8 1.0"
    and "l_heatUp (l_update dt rnd s)
           = (let h = (if l_videoReady s \<and> l_hold s
                       then min (l_heatUp s + heatSensitivity (l_parameters s) * dt * 60) 1.3
                       else l_heatUp s)
              in if h * heatDecay (l_parameters s) < 0.001 then 0
                 else h * heatDecay (l_parameters s))"
    and "l_videoReady s \<Longrightarrow> l_observedHeat (l_update dt rnd s)
           = (if l_hold s
              then min (l_heatUp s + heatSensitivity (l_parameters s) * dt * 60) 1.3
              else l_heatUp s)"
  using assms
  by (simp_all add: l_update_def l_animate_power l_videoInteraction_heat l_observedHeat_def Let_def)

lemma l_pointerUpdate_fields [simp]:
  "l_textureReady (l_pointerUpdate cx cy r s) = l_textureReady s"
  "l_videoReady (l_pointerUpdate cx cy r s) = l_videoReady s"
  "l_hold (l_pointerUpdate cx cy r s) = True"
  "l_parameters (l_pointerUpdate cx cy r s) = l_parameters s"
  "l_heatUp (l_pointerUpdate cx cy r s) = l_heatUp s"
  "l_scrollAnimation (l_pointerUpdate cx cy r s) = l_scrollAnimation s"
  by (simp_all add: l_pointerUpdate_def Let_def)

subsection \<open>What one frame of the component-based scene does\<close>

lemma updateAnimationValues_fields [simp]:
  "textureReady (updateAnimationValues dt s) = textureReady s"
  "videoReady (updateAnimationValues dt s) = videoReady s"
  "heatUp (updateAnimationValues dt s) = heatUp s"
  "drawRenderer (updateAnimationValues dt s) = drawRenderer s"
  "interactionManager (updateAnimationValues dt s) = interactionManager s"
  "parameterController (updateAnimationValues dt s) = parameterController s"
  "thermalMaterial (updateAnimationValues dt s) = thermalMaterial s"
  by (simp_all add: updateAnimationValues_def Let_def)

lemma updateAnimationValues_power:
  "av_value (sa_power (scrollAnimation (animationValues (updateAnimationValues dt s))))
     = clamp (lerp (av_value (sa_power (scrollAnimation (animationValues s))))
                   (av_target (sa_power (scrollAnimation (animationValues s))))
                   (lerpSpeed 0.01 dt)) 0.8 1.0"
  by (simp add: updateAnimationValues_def Let_def POWER_INTERPOLATION_SPEED_def POWER_MIN_def
        POWER_MAX_def)

lemma updateVideoLoop_fields [simp]:
  "textureReady (updateVideoLoop s) = textureReady s"
  "videoReady (updateVideoLoop s) = videoReady s"
  "heatUp (updateVideoLoop s) = heatUp s"
  "drawRenderer (updateVideoLoop s) = drawRenderer s"
  "interactionManager (updateVideoLoop s) = interactionManager s"
  "parameterController (updateVideoLoop s) = parameterController s"
  "thermalMaterial (updateVideoLoop s) = thermalMaterial s"
  "animationValues (updateVideoLoop s) = animationValues s"
  by (simp_all add: updateVideoLoop_def)

lemma updateHeatInteraction_animationValues:
  "updateHeatInteraction dt s = Inr s' \<Longrightarrow> animationValues s' = animationValues s"
  by (auto simp: updateHeatInteraction_def Let_def split: if_splits option.splits)

lemma updateThermalMaterial_fields:
  "updateThermalMaterial rnd s = Inr s' \<Longrightarrow>
     animationValues s' = animationValues s \<and> heatUp s' = heatUp s
     \<and> drawRenderer s' = drawRenderer s \<and> interactionManager s' = interactionManager s
     \<and> parameterController s' = parameterController s
     \<and> textureReady s' = textureReady s \<and> videoReady s' = videoReady s"
  by (auto simp: updateThermalMaterial_def Let_def split: option.splits)

lemma updateMeshTransform_fields [simp]:
  "animationValues (updateMeshTransform s) = animationValues s"
  "heatUp (updateMeshTransform s) = heatUp s"
  "drawRenderer (updateMeshTransform s) = drawRenderer s"
  "interactionManager (updateMeshTransform s) = interactionManager s"
  "parameterController (updateMeshTransform s) = parameterController s"
  "textureReady (updateMeshTransform s) = textureReady s"
  "videoReady (updateMeshTransform s) = videoReady s"
  by (simp_all add: updateMeshTransform_def Let_def split: option.splits)

lemma updateDrawRenderer_fields [simp]:
  "animationValues (updateDrawRenderer s) = animationValues s"
  "heatUp (updateDrawRenderer s) = heatUp s"
  "interactionManager (updateDrawRenderer s) = interactionManager s"
  "parameterController (updateDrawRenderer s) = parameterController s"
  "textureReady (updateDrawRenderer s) = textureReady s"
  "videoReady (updateDrawRenderer s) = videoReady s"
  "uDraw (dr_uniforms (drawRenderer (updateDrawRenderer s))) = uDraw (dr_uniforms (drawRenderer s))"
  by (simp_all add: updateDrawRenderer_def updateDirection_def)

lemma update_animationValues:
  "textureReady s \<Longrightarrow>
   animationValues (state_after (update dt rnd s)) = animationValues (updateAnimationValues dt s)"
  by (auto simp: update_def Let_def split: sum.splits
        dest!: updateHeatInteraction_animationValues updateThermalMaterial_fields)

lemma update_power:
  "textureReady s \<Longrightarrow>
   av_value (sa_power (scrollAnimation (animationValues (state_after (update dt rnd s)))))
     = clamp (lerp (av_value (sa_power (scrollAnimation (animationValues s))))
                   (av_target (sa_power (scrollAnimation (animationValues s))))
                   (lerpSpeed 0.01 dt)) 0.8 1.0"
  by (simp add: update_animationValues updateAnimationValues_power)

lemma updateHeatInteraction_ready:
  assumes "videoReady s" "interactionManager s = Some im" "parameterController s = Some pc"
  shows "\<exists>s'. updateHeatInteraction dt s = Inr s'
           \<and> heatUp s'
               = (let h = (if hold (interactionState im)
                           then min (heatUp s + heatSensitivity (pc_parameters pc) * dt * 60) 1.3
                           else heatUp s)
                  in if h * heatDecay (pc_parameters pc) < 0.001 then 0
                     else h * heatDecay (pc_parameters pc))
           \<and> observedHeat s'
               = (if hold (interactionState im)
                  then min (heatUp s + heatSensitivity (pc_parameters pc) * dt * 60) 1.3
                  else heatUp s)
           \<and> interactionManager s' = Some (updateMousePosition (lerpSpeed 0.8 dt) im)
           \<and> parameterController s' = Some pc
           \<and> thermalMaterial s' = thermalMaterial s
           \<and> textureReady s' = textureReady s \<and> videoReady s'"
  using assms
  by (simp add: updateHeatInteraction_def Let_def observedHeat_def updateDraw_def
        getAllParameters_def constants_defs)

lemma update_ready:
  assumes "textureReady s" "videoReady s" "interactionManager s = Some im"
    "parameterController s = Some pc"
  shows "\<exists>s'. update dt rnd s = Inr s'
           \<and> heatUp s'
               = (let h = (if hold (interactionState im)
                           then min (heatUp s + heatSensitivity (pc_parameters pc) * dt * 60) 1.3
                           else heatUp s)
                  in if h * heatDecay (pc_parameters pc) < 0.001 then 0
                     else h * heatDecay (pc_parameters pc))
           \<and> observedHeat s'
               = (if hold (interactionState im)
                  then min (heatUp s + heatSensitivity (pc_parameters pc) * dt * 60) 1.3
                  else heatUp s)
           \<and> interactionManager s' = Some (updateMousePosition (lerpSpeed 0.8 dt) im)
           \<and> parameterController s' = Some pc
           \<and> textureReady s' \<and> videoReady s'"
proof -
  let ?s2 = "updateVideoLoop (updateAnimationValues dt s)"
  have "videoReady ?s2" "interactionManager ?s2 = Some im" "parameterController ?s2 = Some pc"
    using assms by simp_all
  from updateHeatInteraction_ready [OF this, of dt]
  obtain s3 where s3: "updateHeatInteraction dt ?s2 = Inr s3"
      "heatUp s3 = (let h = (if hold (interactionState im)
                           then min (heatUp s + heatSensitivity (pc_parameters pc) * dt * 60) 1.3
                           else heatUp s)
                  in if h * heatDecay (pc_parameters pc) < 0.001 then 0
                     else h * heatDecay (pc_parameters pc))"
      "observedHeat s3 = (if hold (interactionState im)
                  then min (heatUp s + heatSensitivity (pc_parameters pc) * dt * 60) 1.3
                  else heatUp s)"
      "interactionManager s3 = Some (updateMousePosition (lerpSpeed 0.8 dt) im)"
      "parameterController s3 = Some pc" "textureReady s3" "videoReady s3"
    using assms by auto
  have "\<exists>s4. updateThermalMaterial rnd s3 = Inr s4"
    by (cases "thermalMaterial s3") (simp_all add: updateThermalMaterial_def Let_def s3(5))
  then obtain s4 where s4: "updateThermalMaterial rnd s3 = Inr s4" ..
  note k = updateThermalMaterial_fields [OF s4]
  have "update dt rnd s = Inr (updateDrawRenderer (updateMeshTransform s4))"
    using assms(1) s3(1) s4 by (simp add: update_def Let_def)
  then show ?thesis
    using s3 k by (simp add: observedHeat_def)
qed

subsection \<open>Frames before readiness\<close>

text \<open>
  Claim C8. While the texture-ready flag is unset, \<open>update(deltaTime)\<close> returns at once
  and the scene is exactly what it was, for every \<open>deltaTime\<close>: animation values, heat,
  hold flag, mesh scale, and every uniform of both shader materials. This holds for the
  monolithic scene and for the component-based one (where the call also does not throw).
\<close>

theorem update_before_ready_noop:
  "(\<not> l_textureReady ls \<longrightarrow> l_update dt rnd ls = ls)
   \<and> (\<not> textureReady s \<longrightarrow> update dt rnd s = Inr s \<and> state_after (update dt rnd s) = s)"
  by (simp add: l_update_def update_def)

theorem update_before_ready_noop_witness:
  "l_update (1 / 60) 0.5 (l_pointerUpdate 40 30
       \<lparr>rect_left = 0, rect_top = 0, rect_width = 800, rect_height = 600\<rparr>
       (l_addHeat (LegacyScene_init 0 False)))
     = l_pointerUpdate 40 30 \<lparr>rect_left = 0, rect_top = 0, rect_width = 800, rect_height = 600\<rparr>
         (l_addHeat (LegacyScene_init 0 False))
   \<and> update (1 / 60) 0.5 (setupInteractionManager (createThermalEffect (AppScene_init 0 False)))
     = Inr (setupInteractionManager (createThermalEffect (AppScene_init 0 False)))"
  using update_before_ready_noop [of "l_pointerUpdate 40 30
       \<lparr>rect_left = 0, rect_top = 0, rect_width = 800, rect_height = 600\<rparr>
       (l_addHeat (LegacyScene_init 0 False))"
       "1 / 60" "0.5" "setupInteractionManager (createThermalEffect (AppScene_init 0 False))"]
  by (simp add: LegacyScene_init_def l_addHeat_def AppScene_init_def setupInteractionManager_def
        createThermalEffect_def)

subsection \<open>The end-of-frame reset of the monolithic scene\<close>

text \<open>
  Claim C10. Every \<open>update\<close> of the monolithic scene that runs with the texture-ready flag
  set ends with \<open>hold = false\<close> and the accumulator's direction uniform at
  \<open>(0, 0, 0, 100)\<close>. A frame that starts with \<open>hold\<close> unset hands the stored heat to the
  accumulator unchanged; so the \<open>update\<close> that directly follows another one, with no
  pointer event in between, accumulates nothing and only decays the heat.
\<close>

theorem l_update_resets_interaction:
  "l_textureReady s \<longrightarrow>
     l_hold (l_update dt rnd s) = False
     \<and> uDirection (dr_uniforms (l_drawRenderer (l_update dt rnd s)))
         = \<lparr>v4_x = 0, v4_y = 0, v4_z = 0, v4_w = 100\<rparr>
     \<and> (l_videoReady s \<and> \<not> l_hold s \<longrightarrow> l_observedHeat (l_update dt rnd s) = l_heatUp s)
     \<and> (l_videoReady s \<longrightarrow>
          l_observedHeat (l_update dt' rnd' (l_update dt rnd s)) = l_heatUp (l_update dt rnd s))
     \<and> l_heatUp (l_update dt' rnd' (l_update dt rnd s))
         = (if l_heatUp (l_update dt rnd s) * heatDecay (l_parameters s) < 0.001 then 0
            else l_heatUp (l_update dt rnd s) * heatDecay (l_parameters s))"
  by (simp add: l_update_ready)

theorem l_update_resets_interaction_witness:
  "l_hold (l_update (1 / 60) 0.5 (l_pointerUpdate 40 30
       \<lparr>rect_left = 0, rect_top = 0, rect_width = 800, rect_height = 600\<rparr>
       (l_onVideoReady 9 (LegacyScene_init 0 False)))) = False
   \<and> l_observedHeat (l_update (1 / 60) 0.5 (l_pointerUpdate 40 30
       \<lparr>rect_left = 0, rect_top = 0, rect_width = 800, rect_height = 600\<rparr>
       (l_onVideoReady 9 (LegacyScene_init 0 False)))) = 0.5
   \<and> l_heatUp (l_update (1 / 60) 0.5 (l_pointerUpdate 40 30
       \<lparr>rect_left = 0, rect_top = 0, rect_width = 800, rect_height = 600\<rparr>
       (l_onVideoReady 9 (LegacyScene_init 0 False)))) = 0.475
   \<and> l_observedHeat (l_update (1 / 60) 0.7 (l_update (1 / 60) 0.5 (l_pointerUpdate 40 30
       \<lparr>rect_left = 0, rect_top = 0, rect_width = 800, rect_height = 600\<rparr>
       (l_onVideoReady 9 (LegacyScene_init 0 False))))) = 0.475"
proof -
  let ?s0 = "l_onVideoReady 9 (LegacyScene_init 0 False)"
  let ?s = "l_pointerUpdate 40 30
       \<lparr>rect_left = 0, rect_top = 0, rect_width = 800, rect_height = 600\<rparr> ?s0"
  have s0: "l_textureReady ?s0" "l_videoReady ?s0" "l_heatUp ?s0 = 0"
    "heatSensitivity (l_parameters ?s0) = 0.5" "heatDecay (l_parameters ?s0) = 0.95"
    by (simp_all add: l_onVideoReady_def LegacyScene_init_def)
  have r: "l_textureReady ?s" "l_videoReady ?s"
    using s0 by simp_all
  note frame = l_update_resets_interaction [of ?s "1 / 60" "0.5" "1 / 60" "0.7"]
  have released: "l_hold (l_update (1 / 60) 0.5 ?s) = False"
    using frame r by blast
  have second: "l_observedHeat (l_update (1 / 60) 0.7 (l_update (1 / 60) 0.5 ?s))
      = l_heatUp (l_update (1 / 60) 0.5 ?s)"
    using frame r by blast
  have "l_observedHeat (l_update (1 / 60) 0.5 ?s)
      = (if l_hold ?s then min (l_heatUp ?s + heatSensitivity (l_parameters ?s) * (1 / 60) * 60) 1.3
         else l_heatUp ?s)"
    by (rule l_update_ready(5) [OF r])
  also have "\<dots> = 0.5"
    by (simp add: l_onVideoReady_def LegacyScene_init_def)
  finally have shown: "l_observedHeat (l_update (1 / 60) 0.5 ?s) = 0.5" .
  have "l_heatUp (l_update (1 / 60) 0.5 ?s)
      = (let h = (if l_videoReady ?s \<and> l_hold ?s
                  then min (l_heatUp ?s + heatSensitivity (l_parameters ?s) * (1 / 60) * 60) 1.3
                  else l_heatUp ?s)
         in if h * heatDecay (l_parameters ?s) < 0.001 then 0
            else h * heatDecay (l_parameters ?s))"
    by (rule l_update_ready(4) [OF r(1)])
  also have "\<dots> = 0.475"
    by (simp add: l_onVideoReady_def LegacyScene_init_def)
  finally have stored: "l_heatUp (l_update (1 / 60) 0.5 ?s) = 0.475" .
  show ?thesis
    using released second shown stored by simp
qed

subsection \<open>The power clamp\<close>

lemma clamp_bounds: "lo \<le> hi \<Longrightarrow> lo \<le> clamp v lo hi \<and> clamp v lo hi \<le> hi"
  by (simp add: clamp_def)

lemma l_update_power_range:
  "l_textureReady s \<Longrightarrow> POWER_MIN \<le> l_powerValue (l_update dt rnd s)
     \<and> l_powerValue (l_update dt rnd s) \<le> POWER_MAX"
  using clamp_bounds [of "0.8" "1.0"]
  by (simp add: l_powerValue_def l_update_ready(3) POWER_MIN_def POWER_MAX_def)

lemma l_update_power_inv:
  "POWER_MIN \<le> l_powerValue s \<and> l_powerValue s \<le> POWER_MAX \<Longrightarrow>
   POWER_MIN \<le> l_powerValue (l_update dt rnd s) \<and> l_powerValue (l_update dt rnd s) \<le> POWER_MAX"
  using l_update_power_range [of s dt rnd]
  by (cases "l_textureReady s") (simp_all add: l_update_def)

lemma l_frames_power_inv:
  "POWER_MIN \<le> l_powerValue s \<and> l_powerValue s \<le> POWER_MAX \<Longrightarrow>
   POWER_MIN \<le> l_powerValue (l_frames fs s) \<and> l_powerValue (l_frames fs s) \<le> POWER_MAX"
proof (induction fs arbitrary: s)
  case Nil
  then show ?case by (simp add: l_frames_def)
next
  case (Cons f fs)
  obtain dt rnd where f: "f = (dt, rnd)" by (cases f)
  have "l_frames (f # fs) s = l_frames fs (l_update dt rnd s)"
    by (simp add: l_frames_def f)
  then show ?case
    using Cons.IH [OF l_update_power_inv [OF Cons.prems, of dt rnd]] by simp
qed

lemma update_power_range:
  "textureReady s \<Longrightarrow> POWER_MIN \<le> powerValue (state_after (update dt rnd s))
     \<and> powerValue (state_after (update dt rnd s)) \<le> POWER_MAX"
  using clamp_bounds [of "0.8" "1.0"]
  by (simp add: powerValue_def update_power POWER_MIN_def POWER_MAX_def)

lemma update_power_inv:
  "POWER_MIN \<le> powerValue s \<and> powerValue s \<le> POWER_MAX \<Longrightarrow>
   POWER_MIN \<le> powerValue (state_after (update dt rnd s))
   \<and> powerValue (state_after (update dt rnd s)) \<le> POWER_MAX"
  using update_power_range [of s dt rnd]
  by (cases "textureReady s") (simp_all add: update_def)

lemma frames_power_inv:
  "POWER_MIN \<le> powerValue s \<and> powerValue s \<le> POWER_MAX \<Longrightarrow>
   POWER_MIN \<le> powerValue (frames fs s) \<and> powerValue (frames fs s) \<le> POWER_MAX"
proof (induction fs arbitrary: s)
  case Nil
  then show ?case by (simp add: frames_def)
next
  case (Cons f fs)
  obtain dt rnd where f: "f = (dt, rnd)" by (cases f)
  have "frames (f # fs) s = frames fs (state_after (update dt rnd s))"
    by (simp add: frames_def f)
  then show ?case
    using Cons.IH [OF update_power_inv [OF Cons.prems, of dt rnd]] by simp
qed

text \<open>
  Claim C7. After every \<open>update\<close> that runs with the texture-ready flag set, from any
  state (any current value, any target) and for every \<open>deltaTime\<close>, the animated power
  value lies in \<open>[0.8, 1.0]\<close>. A call before readiness leaves the value alone, so from the
  initial value 0.8, and from any value in the interval, the bound holds after every
  sequence of \<open>update\<close> calls. Both scenes.
\<close>

theorem power_value_clamped:
  "(l_textureReady ls \<longrightarrow>
      POWER_MIN \<le> l_powerValue (l_update dt rnd ls) \<and> l_powerValue (l_update dt rnd ls) \<le> POWER_MAX)
   \<and> (textureReady s \<longrightarrow>
      POWER_MIN \<le> powerValue (state_after (update dt rnd s))
      \<and> powerValue (state_after (update dt rnd s)) \<le> POWER_MAX)
   \<and> POWER_MIN \<le> l_powerValue (l_frames fs (LegacyScene_init free mobile))
   \<and> l_powerValue (l_frames fs (LegacyScene_init free mobile)) \<le> POWER_MAX
   \<and> POWER_MIN \<le> powerValue (frames fs (AppScene_init free mobile))
   \<and> powerValue (frames fs (AppScene_init free mobile)) \<le> POWER_MAX
   \<and> (POWER_MIN \<le> l_powerValue ls \<and> l_powerValue ls \<le> POWER_MAX \<longrightarrow>
      POWER_MIN \<le> l_powerValue (l_frames fs ls) \<and> l_powerValue (l_frames fs ls) \<le> POWER_MAX)
   \<and> (POWER_MIN \<le> powerValue s \<and> powerValue s \<le> POWER_MAX \<longrightarrow>
      POWER_MIN \<le> powerValue (frames fs s) \<and> powerValue (frames fs s) \<le> POWER_MAX)
   \<and> POWER_MIN = 0.8 \<and> POWER_MAX = 1.0"
proof -
  have l0: "POWER_MIN \<le> l_powerValue (LegacyScene_init free mobile)
      \<and> l_powerValue (LegacyScene_init free mobile) \<le> POWER_MAX"
    by (simp add: l_powerValue_def LegacyScene_init_def POWER_MIN_def POWER_MAX_def)
  have a0: "POWER_MIN \<le> powerValue (AppScene_init free mobile)
      \<and> powerValue (AppScene_init free mobile) \<le> POWER_MAX"
    by (simp add: powerValue_def AppScene_init_def POWER_MIN_def POWER_MAX_def)
  show ?thesis
    using l_update_power_range [of ls dt rnd] update_power_range [of s dt rnd]
      l_frames_power_inv [OF l0, of fs] frames_power_inv [OF a0, of fs]
      l_frames_power_inv [of ls fs] frames_power_inv [of s fs]
    by (simp add: POWER_MIN_def POWER_MAX_def)
qed

theorem power_value_clamped_witness:
  "0.8 \<le> l_powerValue (l_update 100 0.5 (l_pointerUpdate 40 30
       \<lparr>rect_left = 0, rect_top = 0, rect_width = 800, rect_height = 600\<rparr>
       (l_onVideoReady 9 (LegacyScene_init 0 False))))
   \<and> l_powerValue (l_update 100 0.5 (l_pointerUpdate 40 30
       \<lparr>rect_left = 0, rect_top = 0, rect_width = 800, rect_height = 600\<rparr>
       (l_onVideoReady 9 (LegacyScene_init 0 False)))) \<le> 1
   \<and> 0.8 \<le> powerValue (state_after (update 100 0.5 (handleVideoReady 9 (AppScene_init 0 False))))
   \<and> powerValue (state_after (update 100 0.5 (handleVideoReady 9 (AppScene_init 0 False)))) \<le> 1"
proof -
  let ?ls = "l_pointerUpdate 40 30
       \<lparr>rect_left = 0, rect_top = 0, rect_width = 800, rect_height = 600\<rparr>
       (l_onVideoReady 9 (LegacyScene_init 0 False))"
  let ?s = "handleVideoReady 9 (AppScene_init 0 False)"
  have ready: "l_textureReady ?ls" "textureReady ?s"
    by (simp_all add: l_onVideoReady_def LegacyScene_init_def handleVideoReady_def
          AppScene_init_def Let_def)
  show ?thesis
    using power_value_clamped [of ?ls 100 "0.5" ?s "[]" 0 False] ready
    by (simp add: POWER_MIN_def POWER_MAX_def)
qed

subsection \<open>Heat decay\<close>

lemma l_frames_Cons: "l_frames ((dt, rnd) # fs) s = l_frames fs (l_update dt rnd s)"
  by (simp add: l_frames_def)

lemma frames_Cons: "frames ((dt, rnd) # fs) s = frames fs (state_after (update dt rnd s))"
  by (simp add: frames_def)

lemma l_frames_cold:
  "l_textureReady s \<Longrightarrow> \<not> l_hold s \<Longrightarrow> l_heatUp s = 0 \<Longrightarrow> l_heatUp (l_frames fs s) = 0"
proof (induction fs arbitrary: s)
  case Nil
  then show ?case by (simp add: l_frames_def)
next
  case (Cons f fs)
  obtain dt rnd where f: "f = (dt, rnd)" by (cases f)
  have "l_textureReady (l_update dt rnd s)" "\<not> l_hold (l_update dt rnd s)"
    "l_heatUp (l_update dt rnd s) = 0"
    using Cons.prems by (simp_all add: l_update_ready)
  then show ?case
    using Cons.IH [of "l_update dt rnd s"] by (simp add: f l_frames_Cons)
qed

lemma updateMousePosition_interactionState [simp]:
  "interactionState (updateMousePosition f im) = interactionState im"
  by (simp add: updateMousePosition_def)

lemma frames_cold:
  "textureReady s \<Longrightarrow> videoReady s \<Longrightarrow> interactionManager s = Some im \<Longrightarrow>
   \<not> hold (interactionState im) \<Longrightarrow> parameterController s = Some pc \<Longrightarrow> heatUp s = 0 \<Longrightarrow>
   heatUp (frames fs s) = 0"
proof (induction fs arbitrary: s im)
  case Nil
  then show ?case by (simp add: frames_def)
next
  case (Cons f fs)
  obtain dt rnd where f: "f = (dt, rnd)" by (cases f)
  from update_ready [OF Cons.prems(1,2,3,5), of dt rnd]
  obtain s' where s': "update dt rnd s = Inr s'" "heatUp s' = 0"
      "interactionManager s' = Some (updateMousePosition (lerpSpeed 0.8 dt) im)"
      "parameterController s' = Some pc" "textureReady s'" "videoReady s'"
    using Cons.prems(4,6) by (auto simp: Let_def)
  have "heatUp (frames fs s') = 0"
    using Cons.IH [OF s'(5,6,3) _ s'(4,2)] Cons.prems(4) by simp
  then show ?case
    by (simp add: f frames_Cons s'(1))
qed

text \<open>
  Claim C3. In a frame in which nothing is held, the stored heat after \<open>update\<close> is
  \<open>heatDecay\<close> times the stored heat before it, unless that product is below the cleanup
  threshold 0.001, in which case the stored heat is exactly 0. After any frame, holding or
  not, the stored heat is 0 or at least 0.001: no positive value below the threshold is
  kept. Once 0, the stored heat stays 0 through every further frame without holding. Both
  scenes; for the component-based scene the frame is one of a fully initialised scene.
\<close>

theorem heat_decay_step:
  "(l_textureReady ls \<and> \<not> l_hold ls \<longrightarrow>
      l_heatUp (l_update dt rnd ls)
        = (if l_heatUp ls * heatDecay (l_parameters ls) < HEAT_CLEANUP_THRESHOLD then 0
           else l_heatUp ls * heatDecay (l_parameters ls)))
   \<and> (l_textureReady ls \<longrightarrow>
      l_heatUp (l_update dt rnd ls) = 0 \<or> HEAT_CLEANUP_THRESHOLD \<le> l_heatUp (l_update dt rnd ls))
   \<and> (l_textureReady ls \<and> \<not> l_hold ls \<and> l_heatUp ls = 0 \<longrightarrow> l_heatUp (l_frames fs ls) = 0)
   \<and> (textureReady s \<and> videoReady s \<and> interactionManager s = Some im
       \<and> parameterController s = Some pc \<longrightarrow>
      (\<not> hold (interactionState im) \<longrightarrow>
         heatUp (state_after (update dt rnd s))
           = (if heatUp s * heatDecay (getAllParameters pc) < HEAT_CLEANUP_THRESHOLD then 0
              else heatUp s * heatDecay (getAllParameters pc)))
      \<and> (heatUp (state_after (update dt rnd s)) = 0
          \<or> HEAT_CLEANUP_THRESHOLD \<le> heatUp (state_after (update dt rnd s)))
      \<and> (\<not> hold (interactionState im) \<and> heatUp s = 0 \<longrightarrow> heatUp (frames fs s) = 0))
   \<and> HEAT_CLEANUP_THRESHOLD = 0.001"
proof -
  have l1: "l_textureReady ls \<and> \<not> l_hold ls \<longrightarrow>
      l_heatUp (l_update dt rnd ls)
        = (if l_heatUp ls * heatDecay (l_parameters ls) < HEAT_CLEANUP_THRESHOLD then 0
           else l_heatUp ls * heatDecay (l_parameters ls))"
    by (simp add: l_update_ready(4) HEAT_CLEANUP_THRESHOLD_def)
  have l2: "l_textureReady ls \<longrightarrow>
      l_heatUp (l_update dt rnd ls) = 0 \<or> HEAT_CLEANUP_THRESHOLD \<le> l_heatUp (l_update dt rnd ls)"
    by (simp add: l_update_ready(4) HEAT_CLEANUP_THRESHOLD_def Let_def)
  have l3: "l_textureReady ls \<and> \<not> l_hold ls \<and> l_heatUp ls = 0 \<longrightarrow> l_heatUp (l_frames fs ls) = 0"
    using l_frames_cold [of ls fs] by blast
  have r: "(\<not> hold (interactionState im) \<longrightarrow>
         heatUp (state_after (update dt rnd s))
           = (if heatUp s * heatDecay (getAllParameters pc) < HEAT_CLEANUP_THRESHOLD then 0
              else heatUp s * heatDecay (getAllParameters pc)))
      \<and> (heatUp (state_after (update dt rnd s)) = 0
          \<or> HEAT_CLEANUP_THRESHOLD \<le> heatUp (state_after (update dt rnd s)))
      \<and> (\<not> hold (interactionState im) \<and> heatUp s = 0 \<longrightarrow> heatUp (frames fs s) = 0)"
    if a: "textureReady s" "videoReady s" "interactionManager s = Some im"
      "parameterController s = Some pc"
  proof -
    from update_ready [OF a, of dt rnd]
    obtain s' where s': "update dt rnd s = Inr s'"
      "heatUp s' = (let h = (if hold (interactionState im)
                           then min (heatUp s + heatSensitivity (pc_parameters pc) * dt * 60) 1.3
                           else heatUp s)
                  in if h * heatDecay (pc_parameters pc) < 0.001 then 0
                     else h * heatDecay (pc_parameters pc))"
      by blast
    show ?thesis
      using frames_cold [OF a(1,2,3) _ a(4), of fs]
      by (auto simp: s' Let_def HEAT_CLEANUP_THRESHOLD_def getAllParameters_def)
  qed
  show ?thesis
    using l1 l2 l3 r by (simp add: HEAT_CLEANUP_THRESHOLD_def)
qed

theorem heat_decay_step_witness:
  "l_heatUp (l_update (1 / 60) 0.5 ((l_onVideoReady 9 (LegacyScene_init 0 False))\<lparr>l_heatUp := 1\<rparr>))
     = 0.95
   \<and> l_heatUp (l_update (1 / 60) 0.5
        ((l_onVideoReady 9 (LegacyScene_init 0 False))\<lparr>l_heatUp := 0.001\<rparr>)) = 0
   \<and> heatUp (state_after (update (1 / 60) 0.5
        ((setupParameterController (setupInteractionManager
            (handleVideoReady 9 (AppScene_init 0 False))))\<lparr>heatUp := 0.001\<rparr>))) = 0"
proof -
  let ?l1 = "(l_onVideoReady 9 (LegacyScene_init 0 False))\<lparr>l_heatUp := 1\<rparr>"
  let ?l2 = "(l_onVideoReady 9 (LegacyScene_init 0 False))\<lparr>l_heatUp := 0.001\<rparr>"
  let ?s = "(setupParameterController (setupInteractionManager
            (handleVideoReady 9 (AppScene_init 0 False))))\<lparr>heatUp := 0.001\<rparr>"
  have l: "l_textureReady ?l1 \<and> \<not> l_hold ?l1" "l_textureReady ?l2 \<and> \<not> l_hold ?l2"
    by (simp_all add: l_onVideoReady_def LegacyScene_init_def)
  have s: "textureReady ?s \<and> videoReady ?s
      \<and> interactionManager ?s = Some InteractionManager_new
      \<and> parameterController ?s = Some ParameterController_new"
    "\<not> hold (interactionState InteractionManager_new)"
    by (simp_all add: setupParameterController_def setupInteractionManager_def
          handleVideoReady_def AppScene_init_def InteractionManager_new_def Let_def)
  have "l_heatUp (l_update (1 / 60) 0.5 ?l1)
      = (if l_heatUp ?l1 * heatDecay (l_parameters ?l1) < HEAT_CLEANUP_THRESHOLD then 0
         else l_heatUp ?l1 * heatDecay (l_parameters ?l1))"
    using heat_decay_step [of ?l1 "1 / 60" "0.5"] l(1) by blast
  also have "\<dots> = 0.95"
    by (simp add: l_onVideoReady_def LegacyScene_init_def HEAT_CLEANUP_THRESHOLD_def)
  finally have a: "l_heatUp (l_update (1 / 60) 0.5 ?l1) = 0.95" .
  have "l_heatUp (l_update (1 / 60) 0.5 ?l2)
      = (if l_heatUp ?l2 * heatDecay (l_parameters ?l2) < HEAT_CLEANUP_THRESHOLD then 0
         else l_heatUp ?l2 * heatDecay (l_parameters ?l2))"
    using heat_decay_step [of ?l2 "1 / 60" "0.5"] l(2) by blast
  also have "\<dots> = 0"
    by (simp add: l_onVideoReady_def LegacyScene_init_def HEAT_CLEANUP_THRESHOLD_def)
  finally have b: "l_heatUp (l_update (1 / 60) 0.5 ?l2) = 0" .
  have "heatUp (state_after (update (1 / 60) 0.5 ?s))
      = (if heatUp ?s * heatDecay (getAllParameters ParameterController_new)
              < HEAT_CLEANUP_THRESHOLD then 0
         else heatUp ?s * heatDecay (getAllParameters ParameterController_new))"
    using heat_decay_step [where s = ?s and im = InteractionManager_new
        and pc = ParameterController_new and dt = "1 / 60" and rnd = "0.5"] s
    by blast
  also have "\<dots> = 0"
    by (simp add: getAllParameters_def ParameterController_new_def DEFAULT_PARAMETERS_def
          HEAT_CLEANUP_THRESHOLD_def Let_def)
  finally have c: "heatUp (state_after (update (1 / 60) 0.5 ?s)) = 0" .
  show ?thesis using a b c by simp
qed

subsection \<open>Heat accumulation\<close>

text \<open>
  One step of the observed heat on reals: \<open>o1\<close> is what a holding frame showed, the stored
  heat is \<open>o1\<close> decayed (and snapped), and the next holding frame shows that plus the
  sensitivity, capped at 1.3.
\<close>

lemma heat_step_arith:
  fixes d \<sigma> o1 :: real
  assumes d: "0 \<le> d" and sg: "0 < \<sigma>" and nosnap: "0.001 \<le> d * \<sigma>"
    and gain: "1.3 * (1 - d) \<le> \<sigma>" and o1: "o1 \<le> 1.3" "o1 = 1.3 \<or> \<sigma> \<le> o1"
  shows "(o1 < 1.3 \<longrightarrow> o1 < min ((if o1 * d < 0.001 then 0 else o1 * d) + \<sigma>) 1.3)
       \<and> (o1 = 1.3 \<longrightarrow> min ((if o1 * d < 0.001 then 0 else o1 * d) + \<sigma>) 1.3 = 1.3)"
proof (intro conjI impI)
  assume lt: "o1 < 1.3"
  then have "\<sigma> \<le> o1" using o1(2) by simp
  then have "\<sigma> * d \<le> o1 * d" using d by (rule mult_right_mono)
  moreover have "0.001 \<le> \<sigma> * d" using nosnap by (simp only: mult.commute)
  ultimately have ns: "\<not> o1 * d < 0.001" by linarith
  have "o1 < o1 * d + \<sigma>"
  proof (cases "d \<le> 1")
    case True
    have "o1 * (1 - d) \<le> 1.3 * (1 - d)"
      using o1(1) True by (intro mult_right_mono) simp_all
    then have "o1 * (1 - d) \<le> \<sigma>" using gain by linarith
    then have le: "o1 \<le> o1 * d + \<sigma>" by (simp add: algebra_simps)
    show ?thesis
    proof (cases "d = 1")
      case True
      then show ?thesis using sg by simp
    next
      case False
      then have "0 < 1 - d" using \<open>d \<le> 1\<close> by simp
      then have "o1 * (1 - d) < 1.3 * (1 - d)" using lt by (intro mult_strict_right_mono)
      then have "o1 * (1 - d) < \<sigma>" using gain by linarith
      then show ?thesis by (simp add: algebra_simps)
    qed
  next
    case False
    have "0 < o1" using sg \<open>\<sigma> \<le> o1\<close> by linarith
    then have "o1 * 1 \<le> o1 * d" using False by (intro mult_left_mono) simp_all
    then show ?thesis using sg by simp
  qed
  then show "o1 < min ((if o1 * d < 0.001 then 0 else o1 * d) + \<sigma>) 1.3"
    using ns lt by simp
next
  assume eq: "o1 = 1.3"
  have "min ((if 1.3 * d < 0.001 then 0 else 1.3 * d) + \<sigma>) 1.3 = (1.3 :: real)"
  proof (cases "1.3 \<le> \<sigma>")
    case True
    have "0 \<le> 1.3 * d" using d by simp
    then show ?thesis using True by (auto simp: min_def)
  next
    case False
    then have "\<sigma> * d \<le> 1.3 * d" using d by (intro mult_right_mono) simp_all
    moreover have "0.001 \<le> \<sigma> * d" using nosnap by (simp only: mult.commute)
    ultimately have ns: "\<not> 1.3 * d < 0.001" by linarith
    have "1.3 \<le> 1.3 * d + \<sigma>" using gain by (simp add: algebra_simps)
    then show ?thesis using ns by (auto simp: min_def)
  qed
  then show "min ((if o1 * d < 0.001 then 0 else o1 * d) + \<sigma>) 1.3 = 1.3"
    unfolding eq .
qed

lemma l_holdingFrame_effect:
  assumes "l_textureReady s" "l_videoReady s"
  shows "l_observedHeat (l_holdingFrame dt f s)
           = min (l_heatUp s + heatSensitivity (l_parameters s) * dt * 60) 1.3"
    and "l_heatUp (l_holdingFrame dt f s)
           = (if l_observedHeat (l_holdingFrame dt f s) * heatDecay (l_parameters s) < 0.001 then 0
              else l_observedHeat (l_holdingFrame dt f s) * heatDecay (l_parameters s))"
    and "l_textureReady (l_holdingFrame dt f s)" "l_videoReady (l_holdingFrame dt f s)"
    and "l_parameters (l_holdingFrame dt f s) = l_parameters s"
  using assms
  by (simp_all add: l_holdingFrame_def l_update_ready Let_def split: prod.splits)

lemma l_holdingFrames_Cons:
  "l_holdingFrames dt (f # fs) s = l_holdingFrames dt fs (l_holdingFrame dt f s)"
  by (simp add: l_holdingFrames_def)

lemma l_holdingFrames_snoc:
  "l_holdingFrames dt (fs @ [f]) s = l_holdingFrame dt f (l_holdingFrames dt fs s)"
  by (simp add: l_holdingFrames_def)

lemma l_holdingFrames_inv:
  assumes "l_textureReady s" "l_videoReady s" "0 \<le> l_heatUp s"
    "0 \<le> heatDecay (l_parameters s)" "0 \<le> heatSensitivity (l_parameters s) * dt"
  shows "l_textureReady (l_holdingFrames dt fs s) \<and> l_videoReady (l_holdingFrames dt fs s)
       \<and> l_parameters (l_holdingFrames dt fs s) = l_parameters s
       \<and> 0 \<le> l_heatUp (l_holdingFrames dt fs s)"
  using assms
proof (induction fs arbitrary: s)
  case Nil
  then show ?case by (simp add: l_holdingFrames_def)
next
  case (Cons f fs)
  let ?s' = "l_holdingFrame dt f s"
  note e = l_holdingFrame_effect [OF Cons.prems(1,2), of dt f]
  have "0 \<le> l_observedHeat ?s'"
    using Cons.prems(3,5) by (simp add: e(1))
  then have h: "0 \<le> l_heatUp ?s'"
    using Cons.prems(4) by (simp add: e(2))
  show ?case
    using Cons.IH [of ?s'] e(3,4,5) h Cons.prems(4,5)
    by (simp add: l_holdingFrames_Cons)
qed

lemma l_heat_accumulation:
  assumes ready: "l_textureReady s" "l_videoReady s"
    and heat: "0 \<le> l_heatUp s"
    and sg: "0 < heatSensitivity (l_parameters s)" and d: "0 \<le> heatDecay (l_parameters s)"
  shows "l_observedHeat (l_holdingFrames (1 / 60) (fs @ [f]) s) \<le> 1.3"
    and "0.001 \<le> heatDecay (l_parameters s) * heatSensitivity (l_parameters s)
         \<and> 1.3 * (1 - heatDecay (l_parameters s)) \<le> heatSensitivity (l_parameters s) \<Longrightarrow>
         (l_observedHeat (l_holdingFrames (1 / 60) (fs @ [f]) s) < 1.3 \<longrightarrow>
            l_observedHeat (l_holdingFrames (1 / 60) (fs @ [f]) s)
              < l_observedHeat (l_holdingFrames (1 / 60) (fs @ [f, g]) s))
         \<and> (l_observedHeat (l_holdingFrames (1 / 60) (fs @ [f]) s) = 1.3 \<longrightarrow>
            l_observedHeat (l_holdingFrames (1 / 60) (fs @ [f, g]) s) = 1.3)"
proof -
  let ?\<sigma> = "heatSensitivity (l_parameters s)"
  let ?d = "heatDecay (l_parameters s)"
  let ?s0 = "l_holdingFrames (1 / 60) fs s"
  let ?s1 = "l_holdingFrame (1 / 60) f ?s0"
  let ?s2 = "l_holdingFrame (1 / 60) g ?s1"
  have inv: "l_textureReady ?s0" "l_videoReady ?s0" "l_parameters ?s0 = l_parameters s"
    "0 \<le> l_heatUp ?s0"
    using l_holdingFrames_inv [OF ready heat d, of "1 / 60" fs] sg by simp_all
  note e1 = l_holdingFrame_effect [OF inv(1,2), of "1 / 60" f]
  note e2 = l_holdingFrame_effect [OF e1(3,4), of "1 / 60" g]
  have s1: "l_holdingFrames (1 / 60) (fs @ [f]) s = ?s1"
    by (simp add: l_holdingFrames_snoc)
  have s2: "l_holdingFrames (1 / 60) (fs @ [f, g]) s = ?s2"
    using l_holdingFrames_snoc [of "1 / 60" "fs @ [f]" g s] s1 by simp
  have o1: "l_observedHeat ?s1 = min (l_heatUp ?s0 + ?\<sigma>) 1.3"
    by (simp add: e1(1) inv(3))
  have o1_le: "l_observedHeat ?s1 \<le> 1.3"
    unfolding o1 by (rule min.cobounded2)
  have o1_ge: "l_observedHeat ?s1 = 1.3 \<or> ?\<sigma> \<le> l_observedHeat ?s1"
    unfolding o1 using inv(4) by (auto simp: min_def)
  have o2: "l_observedHeat ?s2
      = min ((if l_observedHeat ?s1 * ?d < 0.001 then 0 else l_observedHeat ?s1 * ?d) + ?\<sigma>) 1.3"
    by (simp add: e2(1) e1(2,5) inv(3))
  show "l_observedHeat (l_holdingFrames (1 / 60) (fs @ [f]) s) \<le> 1.3"
    using o1_le s1 by simp
  show "(l_observedHeat (l_holdingFrames (1 / 60) (fs @ [f]) s) < 1.3 \<longrightarrow>
            l_observedHeat (l_holdingFrames (1 / 60) (fs @ [f]) s)
              < l_observedHeat (l_holdingFrames (1 / 60) (fs @ [f, g]) s))
         \<and> (l_observedHeat (l_holdingFrames (1 / 60) (fs @ [f]) s) = 1.3 \<longrightarrow>
            l_observedHeat (l_holdingFrames (1 / 60) (fs @ [f, g]) s) = 1.3)"
    if c: "0.001 \<le> ?d * ?\<sigma> \<and> 1.3 * (1 - ?d) \<le> ?\<sigma>"
    using heat_step_arith [OF d sg _ _ o1_le o1_ge] c
    unfolding s1 s2 o2 by blast
qed

lemma frames_snoc:
  "frames (fs @ [(dt, rnd)]) s = state_after (update dt rnd (frames fs s))"
  by (simp add: frames_def)

lemma update_holding_effect:
  assumes "textureReady s" "videoReady s" "interactionManager s = Some im"
    "hold (interactionState im)" "parameterController s = Some pc"
  shows "observedHeat (state_after (update dt rnd s))
           = min (heatUp s + heatSensitivity (getAllParameters pc) * dt * 60) 1.3"
    and "heatUp (state_after (update dt rnd s))
           = (if observedHeat (state_after (update dt rnd s)) * heatDecay (getAllParameters pc)
                   < 0.001 then 0
              else observedHeat (state_after (update dt rnd s)) * heatDecay (getAllParameters pc))"
    and "textureReady (state_after (update dt rnd s))"
        "videoReady (state_after (update dt rnd s))"
    and "interactionManager (state_after (update dt rnd s))
           = Some (updateMousePosition (lerpSpeed 0.8 dt) im)"
    and "parameterController (state_after (update dt rnd s)) = Some pc"
proof -
  from update_ready [OF assms(1,2,3,5), of dt rnd]
  obtain s' where s': "update dt rnd s = Inr s'"
      "heatUp s' = (let h = (if hold (interactionState im)
                           then min (heatUp s + heatSensitivity (pc_parameters pc) * dt * 60) 1.3
                           else heatUp s)
                  in if h * heatDecay (pc_parameters pc) < 0.001 then 0
                     else h * heatDecay (pc_parameters pc))"
      "observedHeat s' = (if hold (interactionState im)
                  then min (heatUp s + heatSensitivity (pc_parameters pc) * dt * 60) 1.3
                  else heatUp s)"
      "interactionManager s' = Some (updateMousePosition (lerpSpeed 0.8 dt) im)"
      "parameterController s' = Some pc" "textureReady s'" "videoReady s'"
    by blast
  show "observedHeat (state_after (update dt rnd s))
           = min (heatUp s + heatSensitivity (getAllParameters pc) * dt * 60) 1.3"
    using assms(4) by (simp add: s'(1,3) getAllParameters_def)
  show "heatUp (state_after (update dt rnd s))
           = (if observedHeat (state_after (update dt rnd s)) * heatDecay (getAllParameters pc)
                   < 0.001 then 0
              else observedHeat (state_after (update dt rnd s)) * heatDecay (getAllParameters pc))"
    using assms(4) by (simp add: s'(1,2,3) getAllParameters_def Let_def)
  show "textureReady (state_after (update dt rnd s))" "videoReady (state_after (update dt rnd s))"
    "interactionManager (state_after (update dt rnd s))
           = Some (updateMousePosition (lerpSpeed 0.8 dt) im)"
    "parameterController (state_after (update dt rnd s)) = Some pc"
    by (simp_all add: s')
qed

lemma frames_holding_inv:
  assumes "textureReady s" "videoReady s" "interactionManager s = Some im"
    "hold (interactionState im)" "parameterController s = Some pc" "0 \<le> heatUp s"
    "0 \<le> heatDecay (getAllParameters pc)" "0 \<le> heatSensitivity (getAllParameters pc)"
    "\<forall>f \<in> set fs. 0 \<le> fst f"
  shows "textureReady (frames fs s) \<and> videoReady (frames fs s)
       \<and> (\<exists>im'. interactionManager (frames fs s) = Some im' \<and> hold (interactionState im'))
       \<and> parameterController (frames fs s) = Some pc \<and> 0 \<le> heatUp (frames fs s)"
  using assms
proof (induction fs arbitrary: s im)
  case Nil
  then show ?case by (simp add: frames_def)
next
  case (Cons f fs)
  obtain dt rnd where f: "f = (dt, rnd)" by (cases f)
  let ?s' = "state_after (update dt rnd s)"
  note e = update_holding_effect [OF Cons.prems(1-5), of dt rnd]
  have dt: "0 \<le> dt" using Cons.prems(9) by (simp add: f)
  have "0 \<le> heatSensitivity (getAllParameters pc) * dt"
    using Cons.prems(8) dt by simp
  then have "0 \<le> observedHeat ?s'"
    using Cons.prems(6) by (simp add: e(1))
  then have h: "0 \<le> heatUp ?s'"
    using Cons.prems(7) by (simp add: e(2))
  have "hold (interactionState (updateMousePosition (lerpSpeed 0.8 dt) im))"
    using Cons.prems(4) by simp
  from Cons.IH [OF e(3,4,5) this e(6) h Cons.prems(7,8)] Cons.prems(9)
  show ?case
    by (simp add: f frames_Cons)
qed

lemma heat_accumulation:
  assumes ready: "textureReady s" "videoReady s" "interactionManager s = Some im"
    "hold (interactionState im)" "parameterController s = Some pc"
    and heat: "0 \<le> heatUp s"
    and sg: "0 < heatSensitivity (getAllParameters pc)"
    and d: "0 \<le> heatDecay (getAllParameters pc)"
  shows "observedHeat (frames (map (Pair (1 / 60)) (rs @ [r])) s) \<le> 1.3"
    and "0.001 \<le> heatDecay (getAllParameters pc) * heatSensitivity (getAllParameters pc)
         \<and> 1.3 * (1 - heatDecay (getAllParameters pc)) \<le> heatSensitivity (getAllParameters pc) \<Longrightarrow>
         (observedHeat (frames (map (Pair (1 / 60)) (rs @ [r])) s) < 1.3 \<longrightarrow>
            observedHeat (frames (map (Pair (1 / 60)) (rs @ [r])) s)
              < observedHeat (frames (map (Pair (1 / 60)) (rs @ [r, r'])) s))
         \<and> (observedHeat (frames (map (Pair (1 / 60)) (rs @ [r])) s) = 1.3 \<longrightarrow>
            observedHeat (frames (map (Pair (1 / 60)) (rs @ [r, r'])) s) = 1.3)"
proof -
  let ?\<sigma> = "heatSensitivity (getAllParameters pc)"
  let ?d = "heatDecay (getAllParameters pc)"
  let ?s0 = "frames (map (Pair (1 / 60)) rs) s"
  let ?s1 = "state_after (update (1 / 60) r ?s0)"
  let ?s2 = "state_after (update (1 / 60) r' ?s1)"
  have "\<forall>f \<in> set (map (Pair (1 / 60 :: real)) rs). 0 \<le> fst f" by simp
  from frames_holding_inv [OF ready heat d _ this] sg
  obtain im0 where inv: "textureReady ?s0" "videoReady ?s0" "interactionManager ?s0 = Some im0"
    "hold (interactionState im0)" "parameterController ?s0 = Some pc" "0 \<le> heatUp ?s0"
    by auto
  note e1 = update_holding_effect [OF inv(1-5), of "1 / 60" r]
  have "hold (interactionState (updateMousePosition (lerpSpeed 0.8 (1 / 60)) im0))"
    using inv(4) by simp
  note e2 = update_holding_effect [OF e1(3,4,5) this e1(6), of "1 / 60" r']
  have s1: "frames (map (Pair (1 / 60)) (rs @ [r])) s = ?s1"
    using frames_snoc [of "map (Pair (1 / 60)) rs" "1 / 60" r s] by simp
  have s2: "frames (map (Pair (1 / 60)) (rs @ [r, r'])) s = ?s2"
    using frames_snoc [of "map (Pair (1 / 60)) (rs @ [r])" "1 / 60" r' s] s1 by simp
  have o1: "observedHeat ?s1 = min (heatUp ?s0 + ?\<sigma>) 1.3"
    by (simp add: e1(1))
  have o1_le: "observedHeat ?s1 \<le> 1.3"
    unfolding o1 by (rule min.cobounded2)
  have o1_ge: "observedHeat ?s1 = 1.3 \<or> ?\<sigma> \<le> observedHeat ?s1"
    unfolding o1 using inv(6) by (auto simp: min_def)
  have o2: "observedHeat ?s2
      = min ((if observedHeat ?s1 * ?d < 0.001 then 0 else observedHeat ?s1 * ?d) + ?\<sigma>) 1.3"
    by (simp add: e2(1) e1(2))
  show "observedHeat (frames (map (Pair (1 / 60)) (rs @ [r])) s) \<le> 1.3"
    using o1_le s1 by simp
  show "(observedHeat (frames (map (Pair (1 / 60)) (rs @ [r])) s) < 1.3 \<longrightarrow>
            observedHeat (frames (map (Pair (1 / 60)) (rs @ [r])) s)
              < observedHeat (frames (map (Pair (1 / 60)) (rs @ [r, r'])) s))
         \<and> (observedHeat (frames (map (Pair (1 / 60)) (rs @ [r])) s) = 1.3 \<longrightarrow>
            observedHeat (frames (map (Pair (1 / 60)) (rs @ [r, r'])) s) = 1.3)"
    if c: "0.001 \<le> ?d * ?\<sigma> \<and> 1.3 * (1 - ?d) \<le> ?\<sigma>"
    using heat_step_arith [OF d sg _ _ o1_le o1_ge] c
    unfolding s1 s2 o2 by blast
qed

text \<open>
  Claim C2, as amended. In a holding frame with \<open>deltaTime = 1/60\<close> and
  \<open>heatSensitivity = s > 0\<close>, the heat observed after the accumulation step is
  \<open>min(h + s, 1.3)\<close> for the stored heat \<open>h \<ge> 0\<close>: above \<open>h\<close> whenever \<open>h < 1.3\<close>, and never
  above 1.3, in any frame of any run. The same frame then multiplies the stored heat by
  \<open>heatDecay\<close>, so across consecutive holding frames the observed value strictly increases
  until it reaches 1.3, and equals 1.3 in every later holding frame, when the gain covers
  the decay at the ceiling, \<open>s \<ge> 1.3 \<sqdot> (1 - heatDecay)\<close> (and \<open>heatDecay \<sqdot> s \<ge> 0.001\<close>, so that
  the cleanup threshold does not interfere; true throughout the declared ranges). Both
  scenes: the monolithic one with a pointer event before every frame, the component-based
  one with the interaction manager's hold flag set.
\<close>

theorem heat_accumulation_frames:
  "(l_textureReady ls \<and> l_videoReady ls \<and> 0 \<le> l_heatUp ls
      \<and> 0 < heatSensitivity (l_parameters ls) \<and> 0 \<le> heatDecay (l_parameters ls) \<longrightarrow>
      l_observedHeat (l_holdingFrame (1 / 60) f ls)
        = min (l_heatUp ls + heatSensitivity (l_parameters ls)) HEAT_MAX_VALUE
      \<and> (l_heatUp ls < HEAT_MAX_VALUE \<longrightarrow> l_heatUp ls < l_observedHeat (l_holdingFrame (1 / 60) f ls))
      \<and> l_observedHeat (l_holdingFrames (1 / 60) (fs @ [f]) ls) \<le> HEAT_MAX_VALUE
      \<and> (HEAT_CLEANUP_THRESHOLD \<le> heatDecay (l_parameters ls) * heatSensitivity (l_parameters ls)
           \<and> HEAT_MAX_VALUE * (1 - heatDecay (l_parameters ls)) \<le> heatSensitivity (l_parameters ls) \<longrightarrow>
          (l_observedHeat (l_holdingFrames (1 / 60) (fs @ [f]) ls) < HEAT_MAX_VALUE \<longrightarrow>
             l_observedHeat (l_holdingFrames (1 / 60) (fs @ [f]) ls)
               < l_observedHeat (l_holdingFrames (1 / 60) (fs @ [f, g]) ls))
          \<and> (l_observedHeat (l_holdingFrames (1 / 60) (fs @ [f]) ls) = HEAT_MAX_VALUE \<longrightarrow>
             l_observedHeat (l_holdingFrames (1 / 60) (fs @ [f, g]) ls) = HEAT_MAX_VALUE)))
   \<and> (textureReady s \<and> videoReady s \<and> interactionManager s = Some im
      \<and> hold (interactionState im) \<and> parameterController s = Some pc \<and> 0 \<le> heatUp s
      \<and> 0 < heatSensitivity (getAllParameters pc) \<and> 0 \<le> heatDecay (getAllParameters pc) \<longrightarrow>
      observedHeat (state_after (update (1 / 60) r s))
        = min (heatUp s + heatSensitivity (getAllParameters pc)) HEAT_MAX_VALUE
      \<and> (heatUp s < HEAT_MAX_VALUE \<longrightarrow> heatUp s < observedHeat (state_after (update (1 / 60) r s)))
      \<and> observedHeat (frames (map (Pair (1 / 60)) (rs @ [r])) s) \<le> HEAT_MAX_VALUE
      \<and> (HEAT_CLEANUP_THRESHOLD
             \<le> heatDecay (getAllParameters pc) * heatSensitivity (getAllParameters pc)
           \<and> HEAT_MAX_VALUE * (1 - heatDecay (getAllParameters pc))
             \<le> heatSensitivity (getAllParameters pc) \<longrightarrow>
          (observedHeat (frames (map (Pair (1 / 60)) (rs @ [r])) s) < HEAT_MAX_VALUE \<longrightarrow>
             observedHeat (frames (map (Pair (1 / 60)) (rs @ [r])) s)
               < observedHeat (frames (map (Pair (1 / 60)) (rs @ [r, r'])) s))
          \<and> (observedHeat (frames (map (Pair (1 / 60)) (rs @ [r])) s) = HEAT_MAX_VALUE \<longrightarrow>
             observedHeat (frames (map (Pair (1 / 60)) (rs @ [r, r'])) s) = HEAT_MAX_VALUE)))
   \<and> HEAT_MAX_VALUE = 1.3 \<and> HEAT_CLEANUP_THRESHOLD = 0.001"
proof -
  have legacy:
    "l_observedHeat (l_holdingFrame (1 / 60) f ls)
        = min (l_heatUp ls + heatSensitivity (l_parameters ls)) 1.3
      \<and> (l_heatUp ls < 1.3 \<longrightarrow> l_heatUp ls < l_observedHeat (l_holdingFrame (1 / 60) f ls))
      \<and> l_observedHeat (l_holdingFrames (1 / 60) (fs @ [f]) ls) \<le> 1.3
      \<and> (0.001 \<le> heatDecay (l_parameters ls) * heatSensitivity (l_parameters ls)
           \<and> 1.3 * (1 - heatDecay (l_parameters ls)) \<le> heatSensitivity (l_parameters ls) \<longrightarrow>
          (l_observedHeat (l_holdingFrames (1 / 60) (fs @ [f]) ls) < 1.3 \<longrightarrow>
             l_observedHeat (l_holdingFrames (1 / 60) (fs @ [f]) ls)
               < l_observedHeat (l_holdingFrames (1 / 60) (fs @ [f, g]) ls))
          \<and> (l_observedHeat (l_holdingFrames (1 / 60) (fs @ [f]) ls) = 1.3 \<longrightarrow>
             l_observedHeat (l_holdingFrames (1 / 60) (fs @ [f, g]) ls) = 1.3))"
    if a: "l_textureReady ls" "l_videoReady ls" "0 \<le> l_heatUp ls"
      "0 < heatSensitivity (l_parameters ls)" "0 \<le> heatDecay (l_parameters ls)"
  proof -
    have first: "l_observedHeat (l_holdingFrame (1 / 60) f ls)
        = min (l_heatUp ls + heatSensitivity (l_parameters ls)) 1.3"
      using l_holdingFrame_effect(1) [OF a(1,2), of "1 / 60" f] by simp
    have "l_heatUp ls < 1.3 \<longrightarrow> l_heatUp ls < l_observedHeat (l_holdingFrame (1 / 60) f ls)"
      unfolding first using a(4) by (auto simp: min_def)
    then show ?thesis
      using first l_heat_accumulation(1) [OF a, where fs = fs and f = f]
        l_heat_accumulation(2) [OF a, where fs = fs and f = f and g = g]
      by blast
  qed
  have component:
    "observedHeat (state_after (update (1 / 60) r s))
        = min (heatUp s + heatSensitivity (getAllParameters pc)) 1.3
      \<and> (heatUp s < 1.3 \<longrightarrow> heatUp s < observedHeat (state_after (update (1 / 60) r s)))
      \<and> observedHeat (frames (map (Pair (1 / 60)) (rs @ [r])) s) \<le> 1.3
      \<and> (0.001 \<le> heatDecay (getAllParameters pc) * heatSensitivity (getAllParameters pc)
           \<and> 1.3 * (1 - heatDecay (getAllParameters pc)) \<le> heatSensitivity (getAllParameters pc) \<longrightarrow>
          (observedHeat (frames (map (Pair (1 / 60)) (rs @ [r])) s) < 1.3 \<longrightarrow>
             observedHeat (frames (map (Pair (1 / 60)) (rs @ [r])) s)
               < observedHeat (frames (map (Pair (1 / 60)) (rs @ [r, r'])) s))
          \<and> (observedHeat (frames (map (Pair (1 / 60)) (rs @ [r])) s) = 1.3 \<longrightarrow>
             observedHeat (frames (map (Pair (1 / 60)) (rs @ [r, r'])) s) = 1.3))"
    if a: "textureReady s" "videoReady s" "interactionManager s = Some im"
      "hold (interactionState im)" "parameterController s = Some pc" "0 \<le> heatUp s"
      "0 < heatSensitivity (getAllParameters pc)" "0 \<le> heatDecay (getAllParameters pc)"
  proof -
    have first: "observedHeat (state_after (update (1 / 60) r s))
        = min (heatUp s + heatSensitivity (getAllParameters pc)) 1.3"
      using update_holding_effect(1) [OF a(1-5), of "1 / 60" r] by simp
    have "heatUp s < 1.3 \<longrightarrow> heatUp s < observedHeat (state_after (update (1 / 60) r s))"
      unfolding first using a(7) by (auto simp: min_def)
    then show ?thesis
      using first heat_accumulation(1) [OF a, where rs = rs and r = r]
        heat_accumulation(2) [OF a, where rs = rs and r = r and r' = r']
      by blast
  qed
  have k: "HEAT_MAX_VALUE = 1.3" "HEAT_CLEANUP_THRESHOLD = 0.001"
    by (simp_all add: HEAT_MAX_VALUE_def HEAT_CLEANUP_THRESHOLD_def)
  show ?thesis
    unfolding k using legacy component by blast
qed

theorem heat_accumulation_frames_witness:
  "l_observedHeat (l_holdingFrame (1 / 60)
        (40, 30, \<lparr>rect_left = 0, rect_top = 0, rect_width = 800, rect_height = 600\<rparr>, 0.5)
        (l_onVideoReady 9 (LegacyScene_init 0 False))) = 0.5
   \<and> l_observedHeat (l_holdingFrames (1 / 60)
        [(40, 30, \<lparr>rect_left = 0, rect_top = 0, rect_width = 800, rect_height = 600\<rparr>, 0.5)]
        (l_onVideoReady 9 (LegacyScene_init 0 False)))
     < l_observedHeat (l_holdingFrames (1 / 60)
        [(40, 30, \<lparr>rect_left = 0, rect_top = 0, rect_width = 800, rect_height = 600\<rparr>, 0.5),
         (41, 30, \<lparr>rect_left = 0, rect_top = 0, rect_width = 800, rect_height = 600\<rparr>, 0.7)]
        (l_onVideoReady 9 (LegacyScene_init 0 False)))
   \<and> observedHeat (state_after (update (1 / 60) 0.5
        (setInteracting True (setupParameterController (setupInteractionManager
           (handleVideoReady 9 (AppScene_init 0 False))))))) = 0.5
   \<and> observedHeat (frames [(1 / 60, 0.5)]
        (setInteracting True (setupParameterController (setupInteractionManager
           (handleVideoReady 9 (AppScene_init 0 False))))))
     < observedHeat (frames [(1 / 60, 0.5), (1 / 60, 0.7)]
        (setInteracting True (setupParameterController (setupInteractionManager
           (handleVideoReady 9 (AppScene_init 0 False))))))"
proof -
  let ?rect = "\<lparr>rect_left = 0, rect_top = 0, rect_width = 800, rect_height = 600\<rparr>"
  let ?f = "(40 :: real, 30 :: real, ?rect, 0.5 :: real)"
  let ?g = "(41 :: real, 30 :: real, ?rect, 0.7 :: real)"
  let ?ls = "l_onVideoReady 9 (LegacyScene_init 0 False)"
  let ?s = "setInteracting True (setupParameterController (setupInteractionManager
           (handleVideoReady 9 (AppScene_init 0 False))))"
  let ?im = "InteractionManager_new\<lparr>interactionState :=
      (interactionState InteractionManager_new)\<lparr>hold := True\<rparr>\<rparr>"
  let ?pc = "ParameterController_new"
  have lh: "l_textureReady ?ls \<and> l_videoReady ?ls \<and> 0 \<le> l_heatUp ?ls
      \<and> 0 < heatSensitivity (l_parameters ?ls) \<and> 0 \<le> heatDecay (l_parameters ?ls)"
    by (simp add: l_onVideoReady_def LegacyScene_init_def)
  have lc: "HEAT_CLEANUP_THRESHOLD \<le> heatDecay (l_parameters ?ls) * heatSensitivity (l_parameters ?ls)
      \<and> HEAT_MAX_VALUE * (1 - heatDecay (l_parameters ?ls)) \<le> heatSensitivity (l_parameters ?ls)"
    by (simp add: l_onVideoReady_def LegacyScene_init_def HEAT_CLEANUP_THRESHOLD_def
          HEAT_MAX_VALUE_def)
  have lv: "min (l_heatUp ?ls + heatSensitivity (l_parameters ?ls)) HEAT_MAX_VALUE = 0.5"
    by (simp add: l_onVideoReady_def LegacyScene_init_def HEAT_MAX_VALUE_def)
  have sh: "textureReady ?s \<and> videoReady ?s \<and> interactionManager ?s = Some ?im
      \<and> hold (interactionState ?im) \<and> parameterController ?s = Some ?pc \<and> 0 \<le> heatUp ?s
      \<and> 0 < heatSensitivity (getAllParameters ?pc) \<and> 0 \<le> heatDecay (getAllParameters ?pc)"
    by (simp add: setInteracting_def setupParameterController_def setupInteractionManager_def
          handleVideoReady_def AppScene_init_def InteractionManager_new_def
          ParameterController_new_def getAllParameters_def DEFAULT_PARAMETERS_def Let_def)
  have sc: "HEAT_CLEANUP_THRESHOLD
        \<le> heatDecay (getAllParameters ?pc) * heatSensitivity (getAllParameters ?pc)
      \<and> HEAT_MAX_VALUE * (1 - heatDecay (getAllParameters ?pc))
        \<le> heatSensitivity (getAllParameters ?pc)"
    by (simp add: ParameterController_new_def getAllParameters_def DEFAULT_PARAMETERS_def
          Let_def HEAT_CLEANUP_THRESHOLD_def HEAT_MAX_VALUE_def)
  have sv: "min (heatUp ?s + heatSensitivity (getAllParameters ?pc)) HEAT_MAX_VALUE = 0.5"
    by (simp add: setInteracting_def setupParameterController_def setupInteractionManager_def
          handleVideoReady_def AppScene_init_def InteractionManager_new_def
          ParameterController_new_def getAllParameters_def DEFAULT_PARAMETERS_def Let_def
          HEAT_MAX_VALUE_def)
  note inst = heat_accumulation_frames [where ls = ?ls and fs = "[]" and f = ?f and g = ?g
      and s = ?s and im = ?im and pc = ?pc and rs = "[]" and r = "0.5" and r' = "0.7"]
  have l1: "l_observedHeat (l_holdingFrame (1 / 60) ?f ?ls) = 0.5"
    using inst lh lv by metis
  have one: "l_holdingFrames (1 / 60) [?f] ?ls = l_holdingFrame (1 / 60) ?f ?ls"
    by (simp add: l_holdingFrames_def)
  have "l_observedHeat (l_holdingFrames (1 / 60) ([] @ [?f]) ?ls) < HEAT_MAX_VALUE"
    using one l1 by (simp add: HEAT_MAX_VALUE_def)
  then have l2: "l_observedHeat (l_holdingFrames (1 / 60) ([] @ [?f]) ?ls)
      < l_observedHeat (l_holdingFrames (1 / 60) ([] @ [?f, ?g]) ?ls)"
    using inst lh lc by blast
  have s1: "observedHeat (state_after (update (1 / 60) 0.5 ?s)) = 0.5"
    using inst sh sv by metis
  have sone: "frames (map (Pair (1 / 60)) ([] @ [0.5])) ?s = state_after (update (1 / 60) 0.5 ?s)"
    by (simp add: frames_def)
  have "observedHeat (frames (map (Pair (1 / 60)) ([] @ [0.5])) ?s) < HEAT_MAX_VALUE"
    using sone s1 by (simp add: HEAT_MAX_VALUE_def)
  then have s2: "observedHeat (frames (map (Pair (1 / 60)) ([] @ [0.5])) ?s)
      < observedHeat (frames (map (Pair (1 / 60)) ([] @ [0.5, 0.7])) ?s)"
    using inst sh sc by blast
  show ?thesis
    using l1 l2 s1 s2 by simp
qed

text \<open>
  The claim as stated fails: with \<open>heatSensitivity = 0.1\<close> and \<open>heatDecay = 0.8\<close> (both
  inside their declared ranges) and a stored heat of 1.25, the first holding frame shows
  the ceiling 1.3, and the next holding frame shows 1.14: the value neither stays clamped
  nor keeps increasing, because the frame's own decay (to 1.04) outweighs the gain.
\<close>

theorem heat_ceiling_not_kept_counterexample:
  "l_heatUp ((l_setParameter HeatDecay 0.8 (l_setParameter HeatSensitivity 0.1
        (l_onVideoReady 9 (LegacyScene_init 0 False))))\<lparr>l_heatUp := 1.25\<rparr>) = 1.25
   \<and> heatSensitivity (l_parameters ((l_setParameter HeatDecay 0.8 (l_setParameter HeatSensitivity 0.1
        (l_onVideoReady 9 (LegacyScene_init 0 False))))\<lparr>l_heatUp := 1.25\<rparr>)) = 0.1
   \<and> l_observedHeat (l_holdingFrames (1 / 60)
        [(40, 30, \<lparr>rect_left = 0, rect_top = 0, rect_width = 800, rect_height = 600\<rparr>, 0.5)]
        ((l_setParameter HeatDecay 0.8 (l_setParameter HeatSensitivity 0.1
           (l_onVideoReady 9 (LegacyScene_init 0 False))))\<lparr>l_heatUp := 1.25\<rparr>)) = 1.3
   \<and> l_observedHeat (l_holdingFrames (1 / 60)
        [(40, 30, \<lparr>rect_left = 0, rect_top = 0, rect_width = 800, rect_height = 600\<rparr>, 0.5),
         (41, 30, \<lparr>rect_left = 0, rect_top = 0, rect_width = 800, rect_height = 600\<rparr>, 0.7)]
        ((l_setParameter HeatDecay 0.8 (l_setParameter HeatSensitivity 0.1
           (l_onVideoReady 9 (LegacyScene_init 0 False))))\<lparr>l_heatUp := 1.25\<rparr>)) = 1.14"
proof -
  let ?rect = "\<lparr>rect_left = 0, rect_top = 0, rect_width = 800, rect_height = 600\<rparr>"
  let ?f = "(40 :: real, 30 :: real, ?rect, 0.5 :: real)"
  let ?g = "(41 :: real, 30 :: real, ?rect, 0.7 :: real)"
  let ?ls = "(l_setParameter HeatDecay 0.8 (l_setParameter HeatSensitivity 0.1
        (l_onVideoReady 9 (LegacyScene_init 0 False))))\<lparr>l_heatUp := 1.25\<rparr>"
  let ?s1 = "l_holdingFrame (1 / 60) ?f ?ls"
  let ?s2 = "l_holdingFrame (1 / 60) ?g ?s1"
  have ready: "l_textureReady ?ls" "l_videoReady ?ls"
    by (simp_all add: l_setParameter_def l_onVideoReady_def LegacyScene_init_def)
  have p: "l_heatUp ?ls = 1.25" "heatSensitivity (l_parameters ?ls) = 0.1"
    by (simp_all add: l_setParameter_def l_onVideoReady_def LegacyScene_init_def)
  note e1 = l_holdingFrame_effect [OF ready, of "1 / 60" ?f]
  note e2 = l_holdingFrame_effect [OF e1(3,4), of "1 / 60" ?g]
  have "l_observedHeat ?s1
      = min (l_heatUp ?ls + heatSensitivity (l_parameters ?ls) * (1 / 60) * 60) 1.3"
    by (rule e1(1))
  also have "\<dots> = 1.3"
    by (simp add: l_setParameter_def l_onVideoReady_def LegacyScene_init_def)
  finally have o1: "l_observedHeat ?s1 = 1.3" .
  have "l_heatUp ?s1 = (if 1.3 * heatDecay (l_parameters ?ls) < 0.001 then 0
                        else 1.3 * heatDecay (l_parameters ?ls))"
    using e1(2) unfolding o1 .
  also have "\<dots> = 1.04"
    by (simp add: l_setParameter_def l_onVideoReady_def LegacyScene_init_def)
  finally have h1: "l_heatUp ?s1 = 1.04" .
  have "l_observedHeat ?s2
      = min (1.04 + heatSensitivity (l_parameters ?ls) * (1 / 60) * 60) 1.3"
    using e2(1) unfolding h1 e1(5) .
  also have "\<dots> = 1.14"
    by (simp add: l_setParameter_def l_onVideoReady_def LegacyScene_init_def)
  finally have o2: "l_observedHeat ?s2 = 1.14" .
  have r1: "l_holdingFrames (1 / 60) [?f] ?ls = ?s1"
    and r2: "l_holdingFrames (1 / 60) [?f, ?g] ?ls = ?s2"
    by (simp_all add: l_holdingFrames_def)
  show ?thesis
    unfolding r1 r2 using p o1 o2 by simp
qed

end
